theory Spec2Isabelle
  imports Main "HOL-Library.AList" "HOL-Library.Monad_Syntax"
begin

section \<open>JavaScript values\<close>

text \<open>
  The annotation factory of \<^verbatim>\<open>src/image/annotationFactory.js\<close> works on untyped
  JavaScript values: tag objects, DICOM data elements, metadata values. They are
  modelled by one datatype (numbers and booleans, which the factory neither makes nor
  tests, are left out). An object is the association list of its own properties, in
  the order in which \<^verbatim>\<open>Object.keys\<close> lists them, read by the first binding of a key;
  the properties are plain data properties (enumerable and writable, no accessors),
  and its prototype is \<^verbatim>\<open>Object.prototype\<close>.
\<close>

datatype js_value =
    JUndefined
  | JNull
  | JString string
  | JArray "js_value list"
  | JObject "(string \<times> js_value) list"

type_synonym js_object = "(string \<times> js_value) list"

text \<open>
  The own property \<open>k\<close> of an object, \<open>JUndefined\<close> if it has none. This is what
  \<^verbatim>\<open>obj[key]\<close> gives for every key that is not a property of \<^verbatim>\<open>Object.prototype\<close>;
  the keys that \<^verbatim>\<open>create\<close> reads (\<^verbatim>\<open>00080060\<close>, \<^verbatim>\<open>00081115\<close>, \<^verbatim>\<open>0020000D\<close>) are
  of that kind. \<^verbatim>\<open>mergeTags\<close> reads computed keys, and is modelled with the prototype
  (see \<open>reads_defined\<close> below).
\<close>

definition js_get :: "js_object \<Rightarrow> string \<Rightarrow> js_value" where
  "js_get obj k = (case map_of obj k of None \<Rightarrow> JUndefined | Some v \<Rightarrow> v)"

text \<open>
  \<^verbatim>\<open>v.name\<close> on any value; \<open>None\<close> is the \<^verbatim>\<open>TypeError\<close> that reading a
  property of \<^verbatim>\<open>undefined\<close> or \<^verbatim>\<open>null\<close> throws. The factory reads only the names
  \<^verbatim>\<open>value\<close>, \<^verbatim>\<open>referencedSOPSequence\<close>, \<^verbatim>\<open>referencedSOPInstanceUID\<close> and
  \<^verbatim>\<open>0020000E\<close>, none of which a string, an array or \<^verbatim>\<open>Object.prototype\<close> has.
\<close>

fun js_prop :: "js_value \<Rightarrow> string \<Rightarrow> js_value option" where
  "js_prop JUndefined k = None"
| "js_prop JNull k = None"
| "js_prop (JString s) k = Some JUndefined"
| "js_prop (JArray xs) k = Some JUndefined"
| "js_prop (JObject obj) k = Some (js_get obj k)"

text \<open>\<^verbatim>\<open>xs[0]\<close> on an array: \<^verbatim>\<open>undefined\<close> when the array is empty.\<close>

definition array_first :: "js_value list \<Rightarrow> js_value" where
  "array_first xs = (case xs of [] \<Rightarrow> JUndefined | x # ys \<Rightarrow> x)"

text \<open>\<^verbatim>\<open>v[0]\<close> on any value.\<close>

fun js_first :: "js_value \<Rightarrow> js_value option" where
  "js_first JUndefined = None"
| "js_first JNull = None"
| "js_first (JString s) = Some (case s of [] \<Rightarrow> JUndefined | c # cs \<Rightarrow> JString [c])"
| "js_first (JArray xs) = Some (array_first xs)"
| "js_first (JObject obj) = Some (js_get obj ''0'')"

text \<open>
  \<^verbatim>\<open>Object.keys(obj)\<close>: every key once (an object has no key twice; a list that
  repeats a key stands for the object of its first bindings).
\<close>

definition Object_keys :: "js_object \<Rightarrow> string list" where
  "Object_keys obj = remdups (map fst obj)"

text \<open>
  The spread \<^verbatim>\<open>{...tags1, ...tags2}\<close>: the own properties of \<open>tags2\<close> are defined
  on a copy of \<open>tags1\<close>, key by key.
\<close>

definition spread :: "js_object \<Rightarrow> js_object \<Rightarrow> js_object" where
  "spread tags1 tags2 =
     foldl (\<lambda>tags k. AList.update k (js_get tags2 k) tags) tags1 (Object_keys tags2)"

subsection \<open>Computed keys and the prototype\<close>

text \<open>
  \<^verbatim>\<open>mergeTags\<close> reads and assigns \<^verbatim>\<open>tags1[tagName2]\<close> for keys that its caller
  chooses, so the prototype of the tag object counts: a key that the object does not
  own is looked up in its prototype, and assigning \<^verbatim>\<open>__proto__\<close> calls the setter of
  \<^verbatim>\<open>Object.prototype\<close>. The string-named properties of \<^verbatim>\<open>Object.prototype\<close> and of
  \<^verbatim>\<open>Array.prototype\<close> (ECMAScript 2023) all have values other than \<^verbatim>\<open>undefined\<close>.
\<close>

definition Object_prototype_names :: "string list" where
  "Object_prototype_names =
     [''constructor'', ''__defineGetter__'', ''__defineSetter__'', ''hasOwnProperty'',
      ''__lookupGetter__'', ''__lookupSetter__'', ''isPrototypeOf'', ''propertyIsEnumerable'',
      ''toString'', ''valueOf'', ''__proto__'', ''toLocaleString'']"

definition Array_prototype_names :: "string list" where
  "Array_prototype_names =
     [''at'', ''concat'', ''constructor'', ''copyWithin'', ''entries'', ''every'', ''fill'',
      ''filter'', ''find'', ''findIndex'', ''findLast'', ''findLastIndex'', ''flat'', ''flatMap'',
      ''forEach'', ''includes'', ''indexOf'', ''join'', ''keys'', ''lastIndexOf'', ''map'', ''pop'',
      ''push'', ''reduce'', ''reduceRight'', ''reverse'', ''shift'', ''slice'', ''some'', ''sort'',
      ''splice'', ''toLocaleString'', ''toReversed'', ''toSorted'', ''toSpliced'', ''toString'',
      ''unshift'', ''values'', ''with'']"

text \<open>The decimal numeral of an array index, as a property key.\<close>

fun decimal :: "nat \<Rightarrow> string" where
  "decimal n =
     (if n < 10 then [''0123456789'' ! n]
      else decimal (n div 10) @ [''0123456789'' ! (n mod 10)])"

declare decimal.simps [simp del]

text \<open>
  The own enumerable properties of a value, as \<^verbatim>\<open>Object.keys(v)\<close> lists them and
  \<^verbatim>\<open>v[key]\<close> reads them: the characters of a string and the elements of an array
  under their indices. \<open>None\<close> is the \<^verbatim>\<open>TypeError\<close> of \<^verbatim>\<open>Object.keys\<close> on
  \<^verbatim>\<open>undefined\<close> and \<^verbatim>\<open>null\<close>.
\<close>

fun own_properties :: "js_value \<Rightarrow> js_object option" where
  "own_properties JUndefined = None"
| "own_properties JNull = None"
| "own_properties (JString s) =
     Some (zip (map decimal [0..<length s]) (map (\<lambda>c. JString [c]) s))"
| "own_properties (JArray xs) = Some (zip (map decimal [0..<length xs]) xs)"
| "own_properties (JObject obj) = Some obj"

text \<open>
  The prototype of a tag object: \<^verbatim>\<open>Object.prototype\<close> when the object is made, and
  what the setter of \<^verbatim>\<open>__proto__\<close> has put there since: \<^verbatim>\<open>null\<close>, an object or an
  array.
\<close>

datatype prototype =
    Object_prototype
  | Null_prototype
  | Object_as_prototype js_object
  | Array_as_prototype "js_value list"

text \<open>
  Whether reading \<open>k\<close> from a prototype, through its own properties and then its own
  prototype, gives a value other than \<^verbatim>\<open>undefined\<close>. An own property ends the search,
  whatever its value.
\<close>

fun inherits :: "prototype \<Rightarrow> string \<Rightarrow> bool" where
  "inherits Object_prototype k = (k \<in> set Object_prototype_names)"
| "inherits Null_prototype k = False"
| "inherits (Object_as_prototype obj) k =
     (case map_of obj k of
        Some v \<Rightarrow> v \<noteq> JUndefined
      | None \<Rightarrow> k \<in> set Object_prototype_names)"
| "inherits (Array_as_prototype xs) k =
     (case map_of (zip (map decimal [0..<length xs]) xs) k of
        Some v \<Rightarrow> v \<noteq> JUndefined
      | None \<Rightarrow> k = ''length'' \<or> k \<in> set Array_prototype_names \<or>
                 k \<in> set Object_prototype_names)"

text \<open>\<^verbatim>\<open>tags[k] !== undefined\<close> on an object with the given own properties and prototype.\<close>

definition reads_defined :: "js_object \<Rightarrow> prototype \<Rightarrow> string \<Rightarrow> bool" where
  "reads_defined tags proto k =
     (case map_of tags k of Some v \<Rightarrow> v \<noteq> JUndefined | None \<Rightarrow> inherits proto k)"

text \<open>
  Whether an assignment of \<^verbatim>\<open>__proto__\<close> that finds no own property reaches the
  setter of \<^verbatim>\<open>Object.prototype\<close>: not when the prototype is \<^verbatim>\<open>null\<close>, and not when
  the prototype is an object with an own property of that name.
\<close>

fun reaches_setter :: "prototype \<Rightarrow> bool" where
  "reaches_setter Object_prototype = True"
| "reaches_setter Null_prototype = False"
| "reaches_setter (Object_as_prototype obj) = (map_of obj ''__proto__'' = None)"
| "reaches_setter (Array_as_prototype xs) = True"

text \<open>
  What the setter of \<^verbatim>\<open>__proto__\<close> does with a value: an object, an array or
  \<^verbatim>\<open>null\<close> becomes the prototype, any other value is ignored.
\<close>

fun set_prototype :: "prototype \<Rightarrow> js_value \<Rightarrow> prototype" where
  "set_prototype proto JNull = Null_prototype"
| "set_prototype proto (JObject obj) = Object_as_prototype obj"
| "set_prototype proto (JArray xs) = Array_as_prototype xs"
| "set_prototype proto JUndefined = proto"
| "set_prototype proto (JString s) = proto"

text \<open>
  \<^verbatim>\<open>tags[k] = v\<close>: the own property is set or made, except that \<^verbatim>\<open>__proto__\<close>, when
  the object does not own it and the setter is reached, changes the prototype and
  makes no own property.
\<close>

definition assign :: "js_object \<Rightarrow> prototype \<Rightarrow> string \<Rightarrow> js_value \<Rightarrow> js_object \<times> prototype" where
  "assign tags proto k v =
     (if k = ''__proto__'' \<and> map_of tags k = None \<and> reaches_setter proto
      then (tags, set_prototype proto v)
      else (AList.update k v tags, proto))"

section \<open>The data model\<close>

text \<open>
  Modelled from the spec: the enumerations \<^verbatim>\<open>ValueTypes\<close> and \<^verbatim>\<open>RelationshipTypes\<close>
  of \<^verbatim>\<open>dicom/dicomSRContent\<close> (container, scoord, image, uidref, text, ...; contains,
  hasProperties, selectedFrom, ...). The last constructor stands for every member the
  factory does not name.
\<close>

datatype value_type =
    ValueTypes_container
  | ValueTypes_scoord
  | ValueTypes_image
  | ValueTypes_uidref
  | ValueTypes_text
  | ValueTypes_other string

datatype relationship_type =
    RelationshipTypes_contains
  | RelationshipTypes_hasProperties
  | RelationshipTypes_selectedFrom
  | RelationshipTypes_other string

text \<open>
  Modelled from the spec: a concept code of \<^verbatim>\<open>dicom/dicomCode\<close>, a coded-value pair.
  The factory reads only its \<^verbatim>\<open>value\<close>.
\<close>

record dicom_code =
  code_value :: string
  code_meaning :: string

text \<open>
  Modelled from the spec: the class \<^verbatim>\<open>DicomSRContent\<close>, a tree node with a value
  type, a relationship type, a concept-name code, a payload and an ordered content
  sequence that is empty or absent for leaves. An absent field is \<open>None\<close> (the payload:
  \<open>JUndefined\<close>).
\<close>

datatype sr_content = DicomSRContent
  (valueType: value_type)
  (relationshipType: "relationship_type option")
  (conceptNameCode: "dicom_code option")
  (sr_value: js_value)
  (contentSequence: "sr_content list option")

text \<open>\<^verbatim>\<open>new DicomSRContent(valueType)\<close>: only the value type is set.\<close>

definition new_DicomSRContent :: "value_type \<Rightarrow> sr_content" where
  "new_DicomSRContent vt = DicomSRContent vt None None JUndefined None"

text \<open>
  Modelled from the spec: the classes \<^verbatim>\<open>Annotation\<close> and \<^verbatim>\<open>AnnotationGroup\<close> of
  \<^verbatim>\<open>image/annotation\<close>. An annotation has an id, a shape, the UID of the image it is
  drawn on and a text; a fresh one has none of them set. A group is an ordered list of
  annotations and a metadata table with a getter and a setter.
\<close>

record annotation =
  id' :: js_value
  mathShape :: js_value
  referenceSopUID :: js_value
  textExpr :: js_value

definition new_Annotation :: annotation where
  "new_Annotation =
     \<lparr>id' = JUndefined, mathShape = JUndefined, referenceSopUID = JUndefined,
      textExpr = JUndefined\<rparr>"

record annotation_group =
  group_list :: "annotation list"
  group_meta :: "string \<rightharpoonup> js_value"

definition AnnotationGroup :: "annotation list \<Rightarrow> annotation_group" where
  "AnnotationGroup annotations = \<lparr>group_list = annotations, group_meta = Map.empty\<rparr>"

definition getList :: "annotation_group \<Rightarrow> annotation list" where
  "getList g = group_list g"

definition getMeta :: "annotation_group \<Rightarrow> string \<Rightarrow> js_value" where
  "getMeta g k = (case group_meta g k of None \<Rightarrow> JUndefined | Some v \<Rightarrow> v)"

definition setMeta :: "annotation_group \<Rightarrow> string \<Rightarrow> js_value \<Rightarrow> annotation_group" where
  "setMeta g k v = g\<lparr>group_meta := (group_meta g)(k \<mapsto> v)\<rparr>"

section \<open>The collaborators\<close>

text \<open>
  The factory imports its collaborators from other modules: the SR content reader
  and writer (\<^verbatim>\<open>dicom/dicomSRContent\<close>), the element builder (\<^verbatim>\<open>dicom/dicomWriter\<close>),
  the shape codec (\<^verbatim>\<open>dicom/dicomSpatialCoordinate\<close>), the concept codes
  (\<^verbatim>\<open>dicom/dicomCode\<close>), the identifier generator (\<^verbatim>\<open>math/stats\<close>) and the date codec
  (\<^verbatim>\<open>dicom/dicomDate\<close>). They are parameters of the model, bundled in one record, and
  every theorem holds for all of them. Each is a function that returns.
  \<open>guid env k\<close> is what the \<open>k\<close>-th call of \<^verbatim>\<open>guid()\<close> returns; a \<^verbatim>\<open>Date\<close> is
  its time value, an integer.
\<close>

record modules =
  getSRContent :: "js_object \<Rightarrow> sr_content"
  getDicomSRContentItem :: "sr_content \<Rightarrow> js_object"
  getElementsFromJSONTags :: "js_object \<Rightarrow> js_object"
  getShapeFromScoord :: "js_value \<Rightarrow> js_value"
  getScoordFromShape :: "js_value \<Rightarrow> js_value"
  getMeasurementGroupCode :: dicom_code
  getImageRegionCode :: dicom_code
  getSourceImageCode :: dicom_code
  getTrackingIdentifierCode :: dicom_code
  getShortLabelCode :: dicom_code
  guid :: "nat \<Rightarrow> string"
  dateToDateObj :: "int \<Rightarrow> js_value"
  getDicomDate :: "js_value \<Rightarrow> js_value"
  dateToTimeObj :: "int \<Rightarrow> js_value"
  getDicomTime :: "js_value \<Rightarrow> js_value"

section \<open>mergeTags\<close>

text \<open>
  The loop of \<^verbatim>\<open>mergeTags\<close> over \<^verbatim>\<open>Object.keys(tags2)\<close>, on the own properties and
  the prototype of \<open>tags1\<close>. The trace logger is the list of the messages it was
  given, oldest first.
\<close>

definition overwrite_message :: "string \<Rightarrow> string" where
  "overwrite_message tagName2 = ''Overwritting tag: '' @ tagName2"

fun mergeTags_loop ::
  "string list \<Rightarrow> js_object \<Rightarrow> prototype \<Rightarrow> js_object \<Rightarrow> string list \<Rightarrow>
   js_object \<times> prototype \<times> string list" where
  "mergeTags_loop [] tags1 proto tags2 trace = (tags1, proto, trace)"
| "mergeTags_loop (tagName2 # keys2) tags1 proto tags2 trace =
     (let trace' = (if reads_defined tags1 proto tagName2
                    then trace @ [overwrite_message tagName2] else trace);
          (tags1', proto') = assign tags1 proto tagName2 (js_get tags2 tagName2)
      in mergeTags_loop keys2 tags1' proto' tags2 trace')"

text \<open>
  \<^verbatim>\<open>mergeTags\<close> on a second argument that is an object; the first is an object
  whose prototype is \<^verbatim>\<open>Object.prototype\<close>, as \<^verbatim>\<open>toDicom\<close> makes it.
\<close>

definition mergeTags_object ::
  "js_object \<Rightarrow> js_object \<Rightarrow> string list \<Rightarrow> js_object \<times> prototype \<times> string list" where
  "mergeTags_object tags1 tags2 trace =
     mergeTags_loop (Object_keys tags2) tags1 Object_prototype tags2 trace"

text \<open>\<^verbatim>\<open>mergeTags\<close> on any second argument: \<^verbatim>\<open>Object.keys\<close> throws on \<^verbatim>\<open>null\<close>.\<close>

definition mergeTags ::
  "js_object \<Rightarrow> js_value \<Rightarrow> string list \<Rightarrow> (js_object \<times> prototype \<times> string list) option" where
  "mergeTags tags1 tags2 trace =
     map_option (\<lambda>obj. mergeTags_object tags1 obj trace) (own_properties tags2)"

section \<open>AnnotationFactory\<close>

text \<open>The factory instance holds one private field, \<^verbatim>\<open>#warning\<close>.\<close>

record factory =
  warning :: "string option"

definition getWarning :: "factory \<Rightarrow> string option" where
  "getWarning this = warning this"

text \<open>\<^verbatim>\<open>checkElements\<close> returns the warning and the factory with the warning stored.\<close>

definition checkElements ::
  "modules \<Rightarrow> factory \<Rightarrow> js_object \<Rightarrow> string option \<times> factory" where
  "checkElements env this dataElements =
     (let this1 = this\<lparr>warning := None\<rparr>;
          srContent = getSRContent env dataElements;
          this2 = (case conceptNameCode srContent of
                     Some code \<Rightarrow>
                       if code_value code \<noteq> code_value (getMeasurementGroupCode env)
                       then this1\<lparr>warning := Some ''Not a measurement group''\<rparr>
                       else this1
                   | None \<Rightarrow> this1\<lparr>warning := Some ''No root concept name code''\<rparr>)
      in (warning this2, this2))"

subsection \<open>create\<close>

text \<open>
  The inner loop of \<^verbatim>\<open>create\<close> over the content sequence of one scoord item. Reading
  \<^verbatim>\<open>subItem.value.referencedSOPSequence.referencedSOPInstanceUID\<close> throws when the value
  or its SOP reference is undefined.
\<close>

fun create_subItems :: "annotation \<Rightarrow> sr_content list \<Rightarrow> annotation option" where
  "create_subItems annotation [] = Some annotation"
| "create_subItems annotation (subItem # subItems) = do {
     a1 \<leftarrow> (if valueType subItem = ValueTypes_image \<and>
               relationshipType subItem = Some RelationshipTypes_selectedFrom
            then do {
              sopRef \<leftarrow> js_prop (sr_value subItem) ''referencedSOPSequence'';
              uid \<leftarrow> js_prop sopRef ''referencedSOPInstanceUID'';
              Some (annotation\<lparr>referenceSopUID := uid\<rparr>)
            }
            else Some annotation);
     let a2 = (if valueType subItem = ValueTypes_uidref \<and>
                  relationshipType subItem = Some RelationshipTypes_hasProperties
               then a1\<lparr>id' := sr_value subItem\<rparr> else a1);
     let a3 = (if valueType subItem = ValueTypes_text \<and>
                  relationshipType subItem = Some RelationshipTypes_hasProperties
               then a2\<lparr>textExpr := sr_value subItem\<rparr> else a2);
     create_subItems a3 subItems
   }"

text \<open>
  The outer loop over the content sequence of the root; \<open>n\<close> counts the calls of
  \<^verbatim>\<open>guid()\<close> made so far. Iterating a content sequence that is undefined throws.
\<close>

fun create_items :: "modules \<Rightarrow> nat \<Rightarrow> sr_content list \<Rightarrow> (annotation list \<times> nat) option" where
  "create_items env n [] = Some ([], n)"
| "create_items env n (item # items) =
     (if valueType item = ValueTypes_scoord then do {
        let annotation = new_Annotation
              \<lparr>mathShape := getShapeFromScoord env (sr_value item)\<rparr>
              \<lparr>id' := JString (guid env n)\<rparr>
              \<lparr>textExpr := JString ''''\<rparr>;
        subItems \<leftarrow> contentSequence item;
        annotation' \<leftarrow> create_subItems annotation subItems;
        (annotations, n') \<leftarrow> create_items env (Suc n) items;
        Some (annotation' # annotations, n')
      }
      else create_items env n items)"

text \<open>\<^verbatim>\<open>element.value[0]\<close>.\<close>

definition first_value :: "js_value \<Rightarrow> js_value option" where
  "first_value element = do { v \<leftarrow> js_prop element ''value''; js_first v }"

definition create ::
  "modules \<Rightarrow> nat \<Rightarrow> js_object \<Rightarrow> (annotation_group \<times> nat) option" where
  "create env n dataElements = do {
     let srContent = getSRContent env dataElements;
     items \<leftarrow> contentSequence srContent;
     (annotations, n') \<leftarrow> create_items env n items;
     let annotationGroup = AnnotationGroup annotations;
     modality \<leftarrow> first_value (js_get dataElements ''00080060'');
     let annotationGroup = setMeta annotationGroup ''Modality'' modality;
     let element = js_get dataElements ''00081115'';
     annotationGroup \<leftarrow>
       (if element \<noteq> JUndefined then do {
          item0 \<leftarrow> first_value element;
          seriesElement \<leftarrow> js_prop item0 ''0020000E'';
          if seriesElement \<noteq> JUndefined then do {
            seriesUID \<leftarrow> first_value seriesElement;
            Some (setMeta annotationGroup ''ReferencedSeriesSequence''
              (JObject [(''value'', JArray [JObject [(''SeriesInstanceUID'', seriesUID)]])]))
          }
          else Some annotationGroup
        }
        else Some annotationGroup);
     study \<leftarrow> first_value (js_get dataElements ''0020000D'');
     Some (setMeta annotationGroup ''StudyInstanceUID'' study, n')
   }"

subsection \<open>toDicom\<close>

text \<open>
  The body of the loop over the annotations: the scoord node of one annotation. Each
  node is a \<^verbatim>\<open>new DicomSRContent(valueType)\<close> with its relationship type, concept-name
  code and value assigned, and for the scoord node its content sequence; the image
  reference and its SOP reference are objects with the properties assigned here.
\<close>

definition srScoord :: "modules \<Rightarrow> annotation \<Rightarrow> sr_content" where
  "srScoord env annotation =
     (let sopRef = JObject [(''referencedSOPClassUID'', JString ''''),
                            (''referencedSOPInstanceUID'', referenceSopUID annotation)];
          imageRef = JObject [(''referencedSOPSequence'', sopRef)];
          srImage = DicomSRContent ValueTypes_image (Some RelationshipTypes_selectedFrom)
                      (Some (getSourceImageCode env)) imageRef None;
          srUid = DicomSRContent ValueTypes_uidref (Some RelationshipTypes_hasProperties)
                      (Some (getTrackingIdentifierCode env)) (id' annotation) None;
          shortLabel = DicomSRContent ValueTypes_text (Some RelationshipTypes_hasProperties)
                      (Some (getShortLabelCode env)) (textExpr annotation) None
      in DicomSRContent ValueTypes_scoord (Some RelationshipTypes_contains)
           (Some (getImageRegionCode env)) (getScoordFromShape env (mathShape annotation))
           (Some [srImage, srUid, shortLabel]))"

text \<open>The tags assigned before the content tree is built.\<close>

definition toDicom_fixed :: "modules \<Rightarrow> int \<Rightarrow> annotation_group \<Rightarrow> js_object" where
  "toDicom_fixed env now annotationGroup =
     [(''TransferSyntaxUID'', JString ''1.2.840.10008.1.2.1''),
      (''SOPClassUID'', JString ''1.2.840.10008.5.1.4.1.1.88.11''),
      (''SOPInstanceUID'', JString ''1.2.840.10008.5.1.4.1.1.88.11.0''),
      (''MediaStorageSOPClassUID'', JString ''1.2.840.10008.5.1.4.1.1.88.11''),
      (''MediaStorageSOPInstanceUID'', JString ''1.2.840.10008.5.1.4.1.1.88.11.0''),
      (''Modality'', getMeta annotationGroup ''Modality''),
      (''StudyInstanceUID'', getMeta annotationGroup ''StudyInstanceUID''),
      (''ReferencedSeriesSequence'', getMeta annotationGroup ''ReferencedSeriesSequence''),
      (''SeriesInstanceUID'', JString ''1.2.3.4.5.6''),
      (''CompletionFlag'', JString ''PARTIAL''),
      (''VerificationFlag'', JString ''UNVERIFIED''),
      (''ContentDate'', getDicomDate env (dateToDateObj env now)),
      (''ContentTime'', getDicomTime env (dateToTimeObj env now))]"

text \<open>The root container that wraps a content sequence.\<close>

definition toDicom_srContent :: "modules \<Rightarrow> sr_content list \<Rightarrow> sr_content" where
  "toDicom_srContent env contentSequence' =
     DicomSRContent ValueTypes_container None (Some (getMeasurementGroupCode env))
       JUndefined (Some contentSequence')"

text \<open>
  The tag object that \<^verbatim>\<open>toDicom\<close> hands to the element builder, and the trace
  messages logged on the way, for \<^verbatim>\<open>extraTags\<close> of the declared type: an object, or
  left out (\<open>None\<close>). The element builder is given the own properties of the tag
  object.
\<close>

definition toDicom_tags ::
  "modules \<Rightarrow> int \<Rightarrow> annotation_group \<Rightarrow> js_object option \<Rightarrow> js_object \<times> string list" where
  "toDicom_tags env now annotationGroup extraTags =
     (let tags = toDicom_fixed env now annotationGroup;
          contentSequence' = map (srScoord env) (getList annotationGroup);
          tags = (if contentSequence' \<noteq> []
                  then spread tags
                         (getDicomSRContentItem env (toDicom_srContent env contentSequence'))
                  else tags)
      in case extraTags of
           None \<Rightarrow> (tags, [])
         | Some extra \<Rightarrow>
             (let (tags', proto, trace) = mergeTags_object tags extra [] in (tags', trace)))"

definition toDicom ::
  "modules \<Rightarrow> int \<Rightarrow> annotation_group \<Rightarrow> js_object option \<Rightarrow> js_object \<times> string list" where
  "toDicom env now annotationGroup extraTags =
     (let (tags, trace) = toDicom_tags env now annotationGroup extraTags
      in (getElementsFromJSONTags env tags, trace))"

text \<open>
  \<^verbatim>\<open>toDicom\<close> on any value of \<^verbatim>\<open>extraTags\<close>: \<^verbatim>\<open>undefined\<close> skips the merge, any
  other value goes to \<^verbatim>\<open>mergeTags\<close>, which throws on \<^verbatim>\<open>null\<close>. The tags before the
  merge are those of \<open>toDicom_tags\<close> without extra tags.
\<close>

definition toDicom_value ::
  "modules \<Rightarrow> int \<Rightarrow> annotation_group \<Rightarrow> js_value \<Rightarrow> (js_object \<times> string list) option" where
  "toDicom_value env now annotationGroup extraTags =
     (let tags = fst (toDicom_tags env now annotationGroup None)
      in if extraTags \<noteq> JUndefined
         then (case mergeTags tags extraTags [] of
                 None \<Rightarrow> None
               | Some (tags', proto, trace) \<Rightarrow> Some (getElementsFromJSONTags env tags', trace))
         else Some (getElementsFromJSONTags env tags, []))"

section \<open>Notions used to state the properties\<close>

text \<open>The last element of a list that satisfies a predicate, if there is one.\<close>

definition last_where :: "('a \<Rightarrow> bool) \<Rightarrow> 'a list \<Rightarrow> 'a option" where
  "last_where P xs = (case filter P xs of [] \<Rightarrow> None | y # ys \<Rightarrow> Some (last (y # ys)))"

text \<open>The three kinds of child that \<^verbatim>\<open>create\<close> looks for under a scoord item.\<close>

definition image_selectedFrom :: "sr_content \<Rightarrow> bool" where
  "image_selectedFrom s \<longleftrightarrow>
     valueType s = ValueTypes_image \<and>
     relationshipType s = Some RelationshipTypes_selectedFrom"

definition uidref_hasProperties :: "sr_content \<Rightarrow> bool" where
  "uidref_hasProperties s \<longleftrightarrow>
     valueType s = ValueTypes_uidref \<and>
     relationshipType s = Some RelationshipTypes_hasProperties"

definition text_hasProperties :: "sr_content \<Rightarrow> bool" where
  "text_hasProperties s \<longleftrightarrow>
     valueType s = ValueTypes_text \<and>
     relationshipType s = Some RelationshipTypes_hasProperties"

text \<open>
  The referenced-SOP-instance field of the payload of a node,
  \<^verbatim>\<open>value.referencedSOPSequence.referencedSOPInstanceUID\<close>; \<open>None\<close> when reading it
  throws.
\<close>

definition referencedSOPInstanceUID_of :: "sr_content \<Rightarrow> js_value option" where
  "referencedSOPInstanceUID_of s = do {
     sopRef \<leftarrow> js_prop (sr_value s) ''referencedSOPSequence'';
     js_prop sopRef ''referencedSOPInstanceUID''
   }"

text \<open>
  The annotation that \<^verbatim>\<open>create\<close> starts from for a scoord item, when \<open>n\<close> identifiers
  have been generated: the decoded shape, a fresh id and the empty text.
\<close>

definition initial_annotation :: "modules \<Rightarrow> nat \<Rightarrow> sr_content \<Rightarrow> annotation" where
  "initial_annotation env n item =
     \<lparr>id' = JString (guid env n), mathShape = getShapeFromScoord env (sr_value item),
      referenceSopUID = JUndefined, textExpr = JString []\<rparr>"

text \<open>The scoord children of a content sequence, in their order.\<close>

definition scoord_items :: "sr_content list \<Rightarrow> sr_content list" where
  "scoord_items items = filter (\<lambda>item. valueType item = ValueTypes_scoord) items"

text \<open>
  What \<^verbatim>\<open>create\<close> needs in order to return: every scoord child of the root has a
  content sequence in which every image/selectedFrom child has a readable
  referenced-SOP-instance field, and where the element 00081115 is present its first
  item can be read, and the first value of its sub-element 0020000E if it has one.
\<close>

definition image_readable :: "sr_content \<Rightarrow> bool" where
  "image_readable s \<longleftrightarrow>
     (if image_selectedFrom s then referencedSOPInstanceUID_of s \<noteq> None else True)"

definition scoord_readable :: "sr_content \<Rightarrow> bool" where
  "scoord_readable item \<longleftrightarrow>
     (case contentSequence item of
        None \<Rightarrow> False
      | Some subItems \<Rightarrow> list_all image_readable subItems)"

definition series_readable :: "js_object \<Rightarrow> bool" where
  "series_readable dataElements \<longleftrightarrow>
     (if js_get dataElements ''00081115'' = JUndefined then True
      else case do { item0 \<leftarrow> first_value (js_get dataElements ''00081115'');
                     js_prop item0 ''0020000E'' } of
             None \<Rightarrow> False
           | Some seriesElement \<Rightarrow>
               if seriesElement = JUndefined then True
               else first_value seriesElement \<noteq> None)"

text \<open>
  The sub-element 0020000E of the first item of the element 00081115, as \<^verbatim>\<open>create\<close>
  reads it: \<^verbatim>\<open>dataElements['00081115'].value[0]['0020000E']\<close>. \<open>None\<close> when reading it
  throws, \<open>Some JUndefined\<close> when the first item has no such sub-element.
\<close>

definition seriesElement_of :: "js_object \<Rightarrow> js_value option" where
  "seriesElement_of dataElements = do {
     item0 \<leftarrow> first_value (js_get dataElements ''00081115'');
     js_prop item0 ''0020000E''
   }"

text \<open>What a node shows of itself, without its content sequence.\<close>

definition node_fields ::
  "sr_content \<Rightarrow> value_type \<times> relationship_type option \<times> js_value" where
  "node_fields s = (valueType s, relationshipType s, sr_value s)"

text \<open>A data element with the given values, as far as the factory reads it.\<close>

definition DataElement :: "js_value list \<Rightarrow> js_value" where
  "DataElement vs = JObject [(''value'', JArray vs)]"

section \<open>Sample collaborators and inputs\<close>

text \<open>
  One instance of the collaborators, for evaluating the factory on concrete inputs: a
  reader that finds a given tree, a writer that lists the payloads of the children of
  the root, an element builder for the tags the factory reads back, a shape codec
  that wraps the shape, the DICOM codes, and a date codec that returns fixed strings.
\<close>

definition sample_writer :: "sr_content \<Rightarrow> js_object" where
  "sample_writer node =
     [(''ValueType'', JString ''CONTAINER''),
      (''ContentSequence'',
         JArray (map sr_value (case contentSequence node of None \<Rightarrow> [] | Some items \<Rightarrow> items)))]"

fun sample_builder_tag :: "string \<times> js_value \<Rightarrow> string \<times> js_value" where
  "sample_builder_tag (k, v) =
     (if k = ''Modality'' then (''00080060'', DataElement [v])
      else if k = ''StudyInstanceUID'' then (''0020000D'', DataElement [v])
      else if k = ''ReferencedSeriesSequence'' then
        (''00081115'',
           DataElement [JObject [(''0020000E'', DataElement
             [case do { s \<leftarrow> js_prop v ''value''; i \<leftarrow> js_first s; js_prop i ''SeriesInstanceUID'' } of
                None \<Rightarrow> JUndefined | Some uid \<Rightarrow> uid])]])
      else (k, DataElement [v]))"

definition sample_builder :: "js_object \<Rightarrow> js_object" where
  "sample_builder tags = map sample_builder_tag tags"

definition sample_modules :: "sr_content \<Rightarrow> modules" where
  "sample_modules root =
     \<lparr>getSRContent = (\<lambda>dataElements. root),
      getDicomSRContentItem = sample_writer,
      getElementsFromJSONTags = sample_builder,
      getShapeFromScoord = (\<lambda>v. case v of JObject obj \<Rightarrow> js_get obj ''shape'' | _ \<Rightarrow> JUndefined),
      getScoordFromShape = (\<lambda>shape. JObject [(''shape'', shape)]),
      getMeasurementGroupCode = \<lparr>code_value = ''125007'', code_meaning = ''Measurement Group''\<rparr>,
      getImageRegionCode = \<lparr>code_value = ''111030'', code_meaning = ''Image Region''\<rparr>,
      getSourceImageCode = \<lparr>code_value = ''260753009'', code_meaning = ''Source''\<rparr>,
      getTrackingIdentifierCode =
        \<lparr>code_value = ''112039'', code_meaning = ''Tracking Identifier''\<rparr>,
      getShortLabelCode = \<lparr>code_value = ''125309'', code_meaning = ''Short label''\<rparr>,
      guid = (\<lambda>k. replicate (Suc k) (CHR ''g'')),
      dateToDateObj = (\<lambda>now. JString ''date''),
      getDicomDate = (\<lambda>dateObj. JString ''20240101''),
      dateToTimeObj = (\<lambda>now. JString ''time''),
      getDicomTime = (\<lambda>timeObj. JString ''120000'')\<rparr>"

text \<open>
  A tree as the reader may find it: a root with two scoord children and a text child.
  The first scoord child has two tracking identifiers, a label, an image reference, a
  nested container with an identifier of its own, and a UID reference under the wrong
  relationship; the second has an empty content sequence.
\<close>

definition sample_children :: "sr_content list" where
  "sample_children =
     [DicomSRContent ValueTypes_uidref (Some RelationshipTypes_hasProperties) None
        (JString ''first-id'') None,
      DicomSRContent ValueTypes_text (Some RelationshipTypes_hasProperties) None
        (JString ''lesion'') None,
      DicomSRContent ValueTypes_image (Some RelationshipTypes_selectedFrom) None
        (JObject [(''referencedSOPSequence'',
           JObject [(''referencedSOPInstanceUID'', JString ''1.2.840.1'')])]) None,
      DicomSRContent ValueTypes_uidref (Some RelationshipTypes_hasProperties) None
        (JString ''second-id'') None,
      DicomSRContent ValueTypes_container (Some RelationshipTypes_contains) None JUndefined
        (Some [DicomSRContent ValueTypes_uidref (Some RelationshipTypes_hasProperties) None
                 (JString ''deep-id'') None]),
      DicomSRContent ValueTypes_uidref (Some RelationshipTypes_contains) None
        (JString ''other-id'') None]"

definition sample_root :: sr_content where
  "sample_root =
     DicomSRContent ValueTypes_container None
       (Some \<lparr>code_value = ''125007'', code_meaning = ''Measurement Group''\<rparr>) JUndefined
       (Some [DicomSRContent ValueTypes_scoord (Some RelationshipTypes_contains) None
                (JObject [(''shape'', JString ''circle'')]) (Some sample_children),
              DicomSRContent ValueTypes_text (Some RelationshipTypes_contains) None
                (JString ''comment'') None,
              DicomSRContent ValueTypes_scoord (Some RelationshipTypes_contains) None
                (JObject [(''shape'', JString ''point'')]) (Some [])])"

definition sample_dataElements :: js_object where
  "sample_dataElements =
     [(''00080060'', DataElement [JString ''MR'']),
      (''0020000D'', DataElement [JString ''1.2.3'']),
      (''00081115'', DataElement [JObject [(''0020000E'', DataElement [JString ''1.2.3.4''])]])]"

text \<open>The group that \<^verbatim>\<open>create\<close> makes of the sample tree and the sample elements.\<close>

definition sample_created :: annotation_group where
  "sample_created =
     \<lparr>group_list =
        [\<lparr>id' = JString ''second-id'', mathShape = JString ''circle'',
          referenceSopUID = JString ''1.2.840.1'', textExpr = JString ''lesion''\<rparr>,
         \<lparr>id' = JString ''gg'', mathShape = JString ''point'',
          referenceSopUID = JUndefined, textExpr = JString []\<rparr>],
      group_meta = [''Modality'' \<mapsto> JString ''MR'',
        ''ReferencedSeriesSequence'' \<mapsto>
           JObject [(''value'', JArray [JObject [(''SeriesInstanceUID'', JString ''1.2.3.4'')]])],
        ''StudyInstanceUID'' \<mapsto> JString ''1.2.3'']\<rparr>"

text \<open>A group of three annotations with complete metadata.\<close>

definition sample_annotation :: "string \<Rightarrow> string \<Rightarrow> annotation" where
  "sample_annotation uid label =
     \<lparr>id' = JString uid, mathShape = JString ''circle'', referenceSopUID = JString ''1.2.840.1'',
      textExpr = JString label\<rparr>"

definition sample_group :: annotation_group where
  "sample_group =
     \<lparr>group_list = [sample_annotation ''A'' ''first'', sample_annotation ''B'' ''second'',
                    sample_annotation ''C'' ''third''],
      group_meta = [''Modality'' \<mapsto> JString ''MR'',
        ''ReferencedSeriesSequence'' \<mapsto>
           JObject [(''value'', JArray [JObject [(''SeriesInstanceUID'', JString ''1.2.3.4'')]])],
        ''StudyInstanceUID'' \<mapsto> JString ''1.2.3'']\<rparr>"

text \<open>The collaborators whose reader finds the tree that \<^verbatim>\<open>toDicom\<close> builds for a group.\<close>

definition sample_modules_for :: "annotation_group \<Rightarrow> modules" where
  "sample_modules_for annotationGroup =
     sample_modules (toDicom_srContent (sample_modules sample_root)
       (map (srScoord (sample_modules sample_root)) (getList annotationGroup)))"

text \<open>The same group with one more metadata key.\<close>

definition sample_group_extra :: annotation_group where
  "sample_group_extra = setMeta sample_group ''PatientName'' (JString ''Doe'')"

text \<open>
  Elements with the two required tags only, and the same with a referenced series
  sequence that has no item.
\<close>

definition sample_required :: js_object where
  "sample_required =
     [(''00080060'', DataElement [JString ''MR'']), (''0020000D'', DataElement [JString ''1.2.3''])]"

definition sample_empty_series :: js_object where
  "sample_empty_series = sample_required @ [(''00081115'', DataElement [])]"

subsection \<open>A codec that parses\<close>

text \<open>
  A second instance of the reader, the writer and the element builder, in which the
  reader parses the elements it is given. The writer lists the concept-name code of a
  node and, for each child, the payloads of the child and of its three sub-items; the
  element builder looks the known tag names up in the tag object and stores what it
  finds under the DICOM keys of a dictionary; the reader rebuilds the tree of a
  measurement group from the elements \<^verbatim>\<open>0040A043\<close> and \<^verbatim>\<open>0040A730\<close>.
\<close>

definition sample_dictionary :: "(string \<times> string) list" where
  "sample_dictionary =
     [(''TransferSyntaxUID'', ''00020010''),
      (''MediaStorageSOPClassUID'', ''00020002''),
      (''MediaStorageSOPInstanceUID'', ''00020003''),
      (''SOPClassUID'', ''00080016''),
      (''SOPInstanceUID'', ''00080018''),
      (''ContentDate'', ''00080023''),
      (''ContentTime'', ''00080033''),
      (''Modality'', ''00080060''),
      (''ReferencedSeriesSequence'', ''00081115''),
      (''StudyInstanceUID'', ''0020000D''),
      (''SeriesInstanceUID'', ''0020000E''),
      (''ValueType'', ''0040A040''),
      (''ConceptNameCodeSequence'', ''0040A043''),
      (''CompletionFlag'', ''0040A491''),
      (''VerificationFlag'', ''0040A493''),
      (''ContentSequence'', ''0040A730'')]"

definition dictionary_builder :: "(string \<times> string) list \<Rightarrow> js_object \<Rightarrow> js_object" where
  "dictionary_builder dictionary tags =
     map (\<lambda>(name, key). (key, snd (sample_builder_tag (name, js_get tags name))))
       (filter (\<lambda>(name, key). js_get tags name \<noteq> JUndefined) dictionary)"

definition sample_code_writer :: "dicom_code \<Rightarrow> js_value" where
  "sample_code_writer code =
     JObject [(''CodeValue'', JString (code_value code)),
              (''CodeMeaning'', JString (code_meaning code))]"

definition sample_code_reader :: "js_value \<Rightarrow> dicom_code option" where
  "sample_code_reader v =
     (case v of
        JObject obj \<Rightarrow>
          (case js_get obj ''CodeValue'' of
             JString cv \<Rightarrow>
               (case js_get obj ''CodeMeaning'' of
                  JString cm \<Rightarrow> Some \<lparr>code_value = cv, code_meaning = cm\<rparr>
                | _ \<Rightarrow> None)
           | _ \<Rightarrow> None)
      | _ \<Rightarrow> None)"

definition sample_item_writer :: "sr_content \<Rightarrow> js_value" where
  "sample_item_writer item =
     JObject
       ((''GraphicData'', sr_value item) #
        (case contentSequence item of
           Some [srImage, srUid, shortLabel] \<Rightarrow>
             [(''ReferencedSOPSequence'', sr_value srImage),
              (''UID'', sr_value srUid),
              (''TextValue'', sr_value shortLabel)]
         | _ \<Rightarrow> []))"

definition parsing_writer :: "sr_content \<Rightarrow> js_object" where
  "parsing_writer node =
     (''ValueType'', JString ''CONTAINER'') #
     (case conceptNameCode node of
        None \<Rightarrow> []
      | Some code \<Rightarrow> [(''ConceptNameCodeSequence'', sample_code_writer code)]) @
     (case contentSequence node of
        None \<Rightarrow> []
      | Some items \<Rightarrow> [(''ContentSequence'', JArray (map sample_item_writer items))])"

definition sample_field :: "js_value \<Rightarrow> string \<Rightarrow> js_value" where
  "sample_field v k = (case js_prop v k of None \<Rightarrow> JUndefined | Some x \<Rightarrow> x)"

definition sample_item_reader :: "js_value \<Rightarrow> sr_content" where
  "sample_item_reader v =
     DicomSRContent ValueTypes_scoord (Some RelationshipTypes_contains)
       (Some \<lparr>code_value = ''111030'', code_meaning = ''Image Region''\<rparr>)
       (sample_field v ''GraphicData'')
       (Some [DicomSRContent ValueTypes_image (Some RelationshipTypes_selectedFrom)
                (Some \<lparr>code_value = ''260753009'', code_meaning = ''Source''\<rparr>)
                (sample_field v ''ReferencedSOPSequence'') None,
              DicomSRContent ValueTypes_uidref (Some RelationshipTypes_hasProperties)
                (Some \<lparr>code_value = ''112039'', code_meaning = ''Tracking Identifier''\<rparr>)
                (sample_field v ''UID'') None,
              DicomSRContent ValueTypes_text (Some RelationshipTypes_hasProperties)
                (Some \<lparr>code_value = ''125309'', code_meaning = ''Short label''\<rparr>)
                (sample_field v ''TextValue'') None])"

definition parsing_reader :: "js_object \<Rightarrow> sr_content" where
  "parsing_reader dataElements =
     DicomSRContent ValueTypes_container None
       (case first_value (js_get dataElements ''0040A043'') of
          None \<Rightarrow> None
        | Some code \<Rightarrow> sample_code_reader code)
       JUndefined
       (case first_value (js_get dataElements ''0040A730'') of
          Some (JArray items) \<Rightarrow> Some (map sample_item_reader items)
        | _ \<Rightarrow> None)"

definition parsing_modules :: modules where
  "parsing_modules =
     (sample_modules sample_root)
       \<lparr>getSRContent := parsing_reader,
        getDicomSRContentItem := parsing_writer,
        getElementsFromJSONTags := dictionary_builder sample_dictionary\<rparr>"

text \<open>
  The sample group with a referenced series sequence whose item holds a second
  attribute.
\<close>

definition sample_group_series :: annotation_group where
  "sample_group_series =
     setMeta sample_group ''ReferencedSeriesSequence''
       (JObject [(''value'', JArray [JObject [(''SeriesInstanceUID'', JString ''1.2.3.4''),
                                             (''SeriesDescription'', JString ''T1'')]])])"

section \<open>Tag objects, the merge and the generated tags\<close>

text \<open>Reading a tag after an assignment and after a spread.\<close>

lemma js_get_update: "js_get (AList.update k v obj) k' = (if k' = k then v else js_get obj k')"
  by (simp add: js_get_def update_conv')

lemma distinct_Object_keys: "distinct (Object_keys obj)"
  by (simp add: Object_keys_def)

lemma js_get_foldl_update:
  "js_get (foldl (\<lambda>tags k. AList.update k (js_get tags2 k) tags) tags1 ks) k =
     (if k \<in> set ks then js_get tags2 k else js_get tags1 k)"
  by (induction ks arbitrary: tags1) (auto simp: js_get_update)

lemma js_get_spread:
  "js_get (spread tags1 tags2) k =
     (if k \<in> set (Object_keys tags2) then js_get tags2 k else js_get tags1 k)"
  by (simp add: spread_def js_get_foldl_update)

text \<open>
  The merge, step by step. An assignment leaves the other own properties alone, and
  sets the own property unless it reaches the setter of \<^verbatim>\<open>__proto__\<close>.
\<close>

lemma map_of_assign_other:
  "k' \<noteq> k \<Longrightarrow> map_of (fst (assign tags proto k v)) k' = map_of tags k'"
  by (simp add: assign_def update_conv')

lemma map_of_assign_same:
  "k \<noteq> ''__proto__'' \<or> map_of tags k \<noteq> None \<Longrightarrow>
   map_of (fst (assign tags proto k v)) k = Some v"
  by (auto simp: assign_def update_conv')

lemma assign_update:
  "k \<noteq> ''__proto__'' \<Longrightarrow> assign tags proto k v = (AList.update k v tags, proto)"
  by (simp add: assign_def)

lemma reads_defined_own:
  "map_of tags k = Some v \<Longrightarrow> reads_defined tags proto k \<longleftrightarrow> v \<noteq> JUndefined"
  by (simp add: reads_defined_def)

lemma reads_defined_absent:
  "map_of tags k = None \<Longrightarrow> reads_defined tags Object_prototype k \<longleftrightarrow> k \<in> set Object_prototype_names"
  by (simp add: reads_defined_def)

lemma reads_defined_update:
  "k' \<noteq> k \<Longrightarrow> reads_defined (AList.update k v tags) proto k' = reads_defined tags proto k'"
  by (simp add: reads_defined_def update_conv')

lemma mergeTags_loop_Cons:
  "mergeTags_loop (k # ks) tags1 proto tags2 trace =
     mergeTags_loop ks (fst (assign tags1 proto k (js_get tags2 k)))
       (snd (assign tags1 proto k (js_get tags2 k))) tags2
       (if reads_defined tags1 proto k then trace @ [overwrite_message k] else trace)"
  by (simp add: Let_def split_beta)

text \<open>The own properties after the merge: untouched outside the keys of the second object.\<close>

lemma map_of_mergeTags_loop_other:
  "k \<notin> set ks \<Longrightarrow> map_of (fst (mergeTags_loop ks tags1 proto tags2 trace)) k = map_of tags1 k"
proof (induction ks arbitrary: tags1 proto trace)
  case Nil
  then show ?case by simp
next
  case (Cons a ks)
  then have "k \<noteq> a" and "k \<notin> set ks" by simp_all
  then show ?case
    unfolding mergeTags_loop_Cons by (simp add: Cons.IH map_of_assign_other)
qed

text \<open>
  A key of the second object is an own property with the second object's value, unless
  it is a \<^verbatim>\<open>__proto__\<close> that the first object does not own.
\<close>

lemma map_of_mergeTags_loop_key:
  "k \<in> set ks \<Longrightarrow> k \<noteq> ''__proto__'' \<or> map_of tags1 k \<noteq> None \<Longrightarrow>
   map_of (fst (mergeTags_loop ks tags1 proto tags2 trace)) k = Some (js_get tags2 k)"
proof (induction ks arbitrary: tags1 proto trace)
  case Nil
  then show ?case by simp
next
  case (Cons a ks)
  let ?tags1 = "fst (assign tags1 proto a (js_get tags2 a))"
  show ?case
  proof (cases "a = k")
    case True
    have own: "map_of ?tags1 k = Some (js_get tags2 k)"
      unfolding True using Cons.prems(2) by (rule map_of_assign_same)
    show ?thesis
    proof (cases "k \<in> set ks")
      case True
      from own have "k \<noteq> ''__proto__'' \<or> map_of ?tags1 k \<noteq> None" by simp
      with True show ?thesis
        unfolding mergeTags_loop_Cons by (rule Cons.IH)
    next
      case False
      with own show ?thesis
        unfolding mergeTags_loop_Cons by (simp add: map_of_mergeTags_loop_other)
    qed
  next
    case False
    with Cons.prems have in_ks: "k \<in> set ks" by simp
    from False have "map_of ?tags1 k = map_of tags1 k"
      by (simp add: map_of_assign_other)
    with Cons.prems(2) have "k \<noteq> ''__proto__'' \<or> map_of ?tags1 k \<noteq> None" by simp
    with in_ks show ?thesis
      unfolding mergeTags_loop_Cons by (rule Cons.IH)
  qed
qed

text \<open>
  Without the key \<^verbatim>\<open>__proto__\<close> the merge is the spread, the prototype stays, and the
  trace is one message for each key that reads a defined value from the first object,
  in key order.
\<close>

lemma mergeTags_loop_plain:
  "''__proto__'' \<notin> set ks \<Longrightarrow> distinct ks \<Longrightarrow>
   mergeTags_loop ks tags1 proto tags2 trace =
     (foldl (\<lambda>tags k. AList.update k (js_get tags2 k) tags) tags1 ks, proto,
      trace @ map overwrite_message (filter (reads_defined tags1 proto) ks))"
proof (induction ks arbitrary: tags1 trace)
  case Nil
  then show ?case by simp
next
  case (Cons k ks)
  then have k: "k \<noteq> ''__proto__''" and ks: "''__proto__'' \<notin> set ks" "distinct ks"
    and fresh: "k \<notin> set ks"
    by auto
  have "reads_defined (AList.update k (js_get tags2 k) tags1) proto k' =
        reads_defined tags1 proto k'" if "k' \<in> set ks" for k'
    using that fresh by (intro reads_defined_update) auto
  then have "filter (reads_defined (AList.update k (js_get tags2 k) tags1) proto) ks =
        filter (reads_defined tags1 proto) ks"
    by (intro filter_cong refl)
  then show ?case
    unfolding mergeTags_loop_Cons by (simp add: assign_update [OF k] Cons.IH [OF ks])
qed

lemma overwrite_message_eq [simp]: "overwrite_message a = overwrite_message b \<longleftrightarrow> a = b"
  by (simp add: overwrite_message_def)

text \<open>
  The messages that name an own property of the first object: one if the key is merged
  and the value was defined, whatever the other keys and the prototype are.
\<close>

lemma count_mergeTags_loop_own:
  "distinct ks \<Longrightarrow> map_of tags1 k = Some v \<Longrightarrow>
   count_list (snd (snd (mergeTags_loop ks tags1 proto tags2 trace))) (overwrite_message k) =
     count_list trace (overwrite_message k) + (if k \<in> set ks \<and> v \<noteq> JUndefined then 1 else 0)"
proof (induction ks arbitrary: tags1 proto trace v)
  case Nil
  then show ?case by simp
next
  case (Cons a ks)
  let ?tags1 = "fst (assign tags1 proto a (js_get tags2 a))"
  from Cons.prems have ks: "distinct ks" and fresh: "a \<notin> set ks" by simp_all
  show ?case
  proof (cases "a = k")
    case True
    have "map_of ?tags1 k = Some (js_get tags2 k)"
      unfolding True using Cons.prems(2) by (intro map_of_assign_same) simp
    from Cons.IH [OF ks this] fresh True Cons.prems(2) show ?thesis
      unfolding mergeTags_loop_Cons by (simp add: reads_defined_own)
  next
    case False
    then have "map_of ?tags1 k = Some v"
      using Cons.prems(2) by (simp add: map_of_assign_other)
    from Cons.IH [OF ks this] False show ?thesis
      unfolding mergeTags_loop_Cons by simp
  qed
qed

text \<open>The same on \<^verbatim>\<open>mergeTags\<close> itself.\<close>

lemma map_of_mergeTags_object_other:
  "k \<notin> set (Object_keys tags2) \<Longrightarrow>
   map_of (fst (mergeTags_object tags1 tags2 trace)) k = map_of tags1 k"
  by (simp add: mergeTags_object_def map_of_mergeTags_loop_other)

lemma map_of_mergeTags_object_key:
  "k \<in> set (Object_keys tags2) \<Longrightarrow> k \<noteq> ''__proto__'' \<or> map_of tags1 k \<noteq> None \<Longrightarrow>
   map_of (fst (mergeTags_object tags1 tags2 trace)) k = Some (js_get tags2 k)"
  by (simp add: mergeTags_object_def map_of_mergeTags_loop_key)

lemma mergeTags_object_plain:
  "''__proto__'' \<notin> set (Object_keys tags2) \<Longrightarrow>
   mergeTags_object tags1 tags2 trace =
     (spread tags1 tags2, Object_prototype,
      trace @ map overwrite_message
                (filter (reads_defined tags1 Object_prototype) (Object_keys tags2)))"
  by (simp add: mergeTags_object_def spread_def mergeTags_loop_plain distinct_Object_keys)

lemma count_mergeTags_object_own:
  "map_of tags1 k = Some v \<Longrightarrow>
   count_list (snd (snd (mergeTags_object tags1 tags2 trace))) (overwrite_message k) =
     count_list trace (overwrite_message k) +
     (if k \<in> set (Object_keys tags2) \<and> v \<noteq> JUndefined then 1 else 0)"
  by (simp add: mergeTags_object_def count_mergeTags_loop_own distinct_Object_keys)

text \<open>
  An index is written with digits, so \<^verbatim>\<open>__proto__\<close> is no index; and a key that reads
  undefined is assigned as an own property: where the setter of \<^verbatim>\<open>__proto__\<close> is
  reached, the getter reads a defined value.
\<close>

lemma decimal_digits: "set (decimal n) \<subseteq> set ''0123456789''"
proof (induction n rule: decimal.induct)
  case (1 n)
  show ?case
  proof (cases "n < 10")
    case True
    then have "''0123456789'' ! n \<in> set ''0123456789''"
      by (intro nth_mem) simp
    with True show ?thesis
      by (subst decimal.simps) simp
  next
    case False
    have "''0123456789'' ! (n mod 10) \<in> set ''0123456789''"
      by (intro nth_mem) simp
    with False 1 show ?thesis
      by (subst decimal.simps) simp
  qed
qed

lemma proto_not_index: "map_of (zip (map decimal ns) xs) ''__proto__'' = None"
proof -
  have "''__proto__'' \<noteq> decimal n" for n
  proof
    assume "''__proto__'' = decimal n"
    then have "CHR ''_'' \<in> set (decimal n)"
      by (metis list.set_intros(1))
    with decimal_digits [of n] show False
      by auto
  qed
  then have "''__proto__'' \<notin> set (map decimal ns)"
    by auto
  then have "''__proto__'' \<notin> fst ` set (zip (map decimal ns) xs)"
    by (auto dest: set_zip_leftD)
  then show ?thesis
    by (simp add: map_of_eq_None_iff)
qed

lemma inherits_proto: "reaches_setter proto \<Longrightarrow> inherits proto ''__proto__''"
  by (cases proto) (simp_all add: Object_prototype_names_def proto_not_index)

lemma assign_unread:
  assumes "\<not> reads_defined tags proto k"
  shows "assign tags proto k v = (AList.update k v tags, proto)"
proof -
  have "\<not> (k = ''__proto__'' \<and> map_of tags k = None \<and> reaches_setter proto)"
    using assms inherits_proto [of proto] by (auto simp: reads_defined_def)
  then show ?thesis
    unfolding assign_def by (rule if_not_P)
qed

text \<open>
  A key \<^verbatim>\<open>__proto__\<close> that the first object does not own is not made an own property
  by the merge.
\<close>

lemma map_of_mergeTags_loop_proto:
  "distinct ks \<Longrightarrow> map_of tags1 ''__proto__'' = None \<Longrightarrow> reaches_setter proto \<Longrightarrow>
   map_of (fst (mergeTags_loop ks tags1 proto tags2 trace)) ''__proto__'' = None"
proof (induction ks arbitrary: tags1 trace)
  case Nil
  then show ?case by simp
next
  case (Cons k ks)
  from Cons.prems have ks: "distinct ks" and fresh: "k \<notin> set ks"
    by simp_all
  show ?case
  proof (cases "k = ''__proto__''")
    case True
    with Cons.prems have "fst (assign tags1 proto k (js_get tags2 k)) = tags1"
      by (simp add: assign_def)
    with True fresh Cons.prems(2) show ?thesis
      unfolding mergeTags_loop_Cons by (simp add: map_of_mergeTags_loop_other)
  next
    case False
    with Cons.prems(2) have "map_of (AList.update k (js_get tags2 k) tags1) ''__proto__'' = None"
      by (simp add: update_conv')
    from Cons.IH [OF ks this Cons.prems(3)] False show ?thesis
      unfolding mergeTags_loop_Cons by (simp add: assign_update)
  qed
qed

lemma map_of_mergeTags_object_proto:
  "map_of tags1 ''__proto__'' = None \<Longrightarrow>
   map_of (fst (mergeTags_object tags1 tags2 trace)) ''__proto__'' = None"
  by (simp add: mergeTags_object_def map_of_mergeTags_loop_proto distinct_Object_keys)

lemma js_get_map_of: "map_of obj k = Some v \<Longrightarrow> js_get obj k = v"
  by (simp add: js_get_def)

lemma js_get_cong_map_of: "map_of obj k = map_of obj' k \<Longrightarrow> js_get obj k = js_get obj' k"
  by (simp add: js_get_def)

text \<open>The tags before and after the extra tags are merged.\<close>

lemma toDicom_tags_None:
  "fst (toDicom_tags env now G None) =
     (if getList G = [] then toDicom_fixed env now G
      else spread (toDicom_fixed env now G)
             (getDicomSRContentItem env (toDicom_srContent env (map (srScoord env) (getList G)))))"
  by (simp add: toDicom_tags_def Let_def)

lemma fst_toDicom_tags_Some:
  "fst (toDicom_tags env now G (Some extra)) =
     fst (mergeTags_object (fst (toDicom_tags env now G None)) extra [])"
  by (simp add: toDicom_tags_def Let_def split_beta)

lemma snd_toDicom_tags_Some:
  "snd (toDicom_tags env now G (Some extra)) =
     snd (snd (mergeTags_object (fst (toDicom_tags env now G None)) extra []))"
  by (simp add: toDicom_tags_def Let_def split_beta)

lemma js_get_toDicom_tags_other:
  "k \<notin> set (Object_keys extra) \<Longrightarrow>
   js_get (fst (toDicom_tags env now G (Some extra))) k =
     js_get (fst (toDicom_tags env now G None)) k"
  unfolding fst_toDicom_tags_Some
  by (rule js_get_cong_map_of) (rule map_of_mergeTags_object_other)

lemma map_of_toDicom_fixed_Modality:
  "map_of (toDicom_fixed env now G) ''Modality'' = Some (getMeta G ''Modality'')"
  by (simp add: toDicom_fixed_def)

lemma map_of_foldl_update:
  "map_of (foldl (\<lambda>tags k. AList.update k (js_get tags2 k) tags) tags1 ks) k =
     (if k \<in> set ks then Some (js_get tags2 k) else map_of tags1 k)"
  by (induction ks arbitrary: tags1) (auto simp: update_conv')

lemma map_of_spread:
  "map_of (spread tags1 tags2) k =
     (if k \<in> set (Object_keys tags2) then Some (js_get tags2 k) else map_of tags1 k)"
  by (simp add: spread_def map_of_foldl_update)

lemma js_get_generated:
  "getList G = [] \<or>
   k \<notin> set (Object_keys (getDicomSRContentItem env
          (toDicom_srContent env (map (srScoord env) (getList G))))) \<Longrightarrow>
   js_get (fst (toDicom_tags env now G None)) k = js_get (toDicom_fixed env now G) k"
  by (auto simp: toDicom_tags_None js_get_spread)

lemma map_of_generated:
  "getList G = [] \<or>
   k \<notin> set (Object_keys (getDicomSRContentItem env
          (toDicom_srContent env (map (srScoord env) (getList G))))) \<Longrightarrow>
   map_of (fst (toDicom_tags env now G None)) k = map_of (toDicom_fixed env now G) k"
  by (auto simp: toDicom_tags_None map_of_spread)

section \<open>The loops and the metadata of create\<close>

text \<open>
  The inner loop overwrites a field at every matching child, so what it returns is
  decided by the last matching child of each kind.
\<close>

lemma last_where_Nil [simp]: "last_where P [] = None"
  by (simp add: last_where_def)

lemma last_where_Cons:
  "last_where P (x # xs) =
     (case last_where P xs of None \<Rightarrow> if P x then Some x else None | Some y \<Rightarrow> Some y)"
  by (simp add: last_where_def split: list.split)

lemma create_subItems_Some:
  "create_subItems a subItems = Some a' \<Longrightarrow>
     mathShape a' = mathShape a \<and>
     id' a' = (case last_where uidref_hasProperties subItems of
                 None \<Rightarrow> id' a | Some s \<Rightarrow> sr_value s) \<and>
     textExpr a' = (case last_where text_hasProperties subItems of
                 None \<Rightarrow> textExpr a | Some s \<Rightarrow> sr_value s) \<and>
     Some (referenceSopUID a') = (case last_where image_selectedFrom subItems of
                 None \<Rightarrow> Some (referenceSopUID a) | Some s \<Rightarrow> referencedSOPInstanceUID_of s)"
proof (induction subItems arbitrary: a)
  case Nil
  then show ?case by simp
next
  case (Cons s subItems)
  show ?case
  proof (cases "image_selectedFrom s")
    case True
    then obtain uid where uid: "referencedSOPInstanceUID_of s = Some uid"
      and rest: "create_subItems (a\<lparr>referenceSopUID := uid\<rparr>) subItems = Some a'"
      using Cons.prems
      by (auto simp: image_selectedFrom_def referencedSOPInstanceUID_of_def
          split: Option.bind_splits)
    from True have "\<not> uidref_hasProperties s" "\<not> text_hasProperties s"
      by (auto simp: image_selectedFrom_def uidref_hasProperties_def text_hasProperties_def)
    with True uid Cons.IH [OF rest] show ?thesis
      by (auto simp: last_where_Cons split: option.splits)
  next
    case False
    let ?a2 = "if uidref_hasProperties s then a\<lparr>id' := sr_value s\<rparr> else a"
    let ?a3 = "if text_hasProperties s then ?a2\<lparr>textExpr := sr_value s\<rparr> else ?a2"
    from False Cons.prems have rest: "create_subItems ?a3 subItems = Some a'"
      by (auto simp: image_selectedFrom_def uidref_hasProperties_def text_hasProperties_def)
    have "\<not> (uidref_hasProperties s \<and> text_hasProperties s)"
      by (auto simp: uidref_hasProperties_def text_hasProperties_def)
    with False Cons.IH [OF rest] show ?thesis
      by (auto simp: last_where_Cons split: option.splits if_splits)
  qed
qed
lemma create_subItems_fields:
  "map node_fields subItems = map node_fields subItems' \<Longrightarrow>
   create_subItems a subItems = create_subItems a subItems'"
proof (induction subItems arbitrary: a subItems')
  case Nil
  then show ?case by simp
next
  case (Cons s subItems)
  then obtain s' rest where split: "subItems' = s' # rest"
    and s: "node_fields s = node_fields s'"
    and rest: "map node_fields subItems = map node_fields rest"
    by (cases subItems') auto
  from s have "valueType s = valueType s'" "relationshipType s = relationshipType s'"
    "sr_value s = sr_value s'"
    by (simp_all add: node_fields_def)
  with Cons.IH [OF rest] show ?case
    by (simp add: split cong: Option.bind_cong)
qed

text \<open>
  The outer loop pairs the scoord children, in order, with the annotations, the
  \<open>k\<close>-th one started with the \<open>k\<close>-th generated identifier.
\<close>

lemma create_items_Some:
  "create_items env n items = Some (annotations, n') \<Longrightarrow>
     n' = n + length (scoord_items items) \<and>
     list_all2 (\<lambda>(k, item) a. \<exists>subItems. contentSequence item = Some subItems \<and>
                  create_subItems (initial_annotation env k item) subItems = Some a)
       (zip [n..<n'] (scoord_items items)) annotations"
proof (induction items arbitrary: n annotations)
  case Nil
  then show ?case by (simp add: scoord_items_def)
next
  case (Cons item items)
  show ?case
  proof (cases "valueType item = ValueTypes_scoord")
    case False
    with Cons show ?thesis by (simp add: scoord_items_def)
  next
    case True
    with Cons.prems obtain subItems a rest where
      sub: "contentSequence item = Some subItems"
      and a: "create_subItems (initial_annotation env n item) subItems = Some a"
      and rest: "create_items env (Suc n) items = Some (rest, n')"
      and annotations: "annotations = a # rest"
      by (auto simp: initial_annotation_def new_Annotation_def split: Option.bind_splits)
    from Cons.IH [OF rest] have n': "n' = Suc n + length (scoord_items items)"
      and all: "list_all2 (\<lambda>(k, item) a. \<exists>subItems. contentSequence item = Some subItems \<and>
                  create_subItems (initial_annotation env k item) subItems = Some a)
         (zip [Suc n..<n'] (scoord_items items)) rest"
      by blast+
    from n' have "n < n'"
      by simp
    then have upt: "[n..<n'] = n # [Suc n..<n']"
      by (rule upt_conv_Cons)
    from True have items: "scoord_items (item # items) = item # scoord_items items"
      by (simp add: scoord_items_def)
    from sub a all show ?thesis
      unfolding items annotations upt by (simp add: n')
  qed
qed

text \<open>The outer loop on the nodes that \<^verbatim>\<open>toDicom\<close> builds gives the annotations back.\<close>

lemma create_items_srScoord:
  "create_items env n (map (srScoord env) annotations) =
     Some (map (\<lambda>a. a\<lparr>mathShape := getShapeFromScoord env (getScoordFromShape env (mathShape a))\<rparr>)
             annotations, n + length annotations)"
proof (induction annotations arbitrary: n)
  case Nil
  then show ?case by simp
next
  case (Cons a annotations)
  have "create_subItems
          (new_Annotation
              \<lparr>mathShape := getShapeFromScoord env (getScoordFromShape env (mathShape a))\<rparr>
              \<lparr>id' := JString (guid env n)\<rparr>
              \<lparr>textExpr := JString ''''\<rparr>)
          (the (contentSequence (srScoord env a))) =
        Some (a\<lparr>mathShape := getShapeFromScoord env (getScoordFromShape env (mathShape a))\<rparr>)"
    by (cases a) (simp add: srScoord_def new_Annotation_def js_get_def)
  then show ?case
    by (simp add: Cons.IH) (simp add: srScoord_def)
qed

text \<open>The metadata part of \<^verbatim>\<open>create\<close>, case by case.\<close>

lemma first_value_undefined [simp]: "first_value JUndefined = None"
  by (simp add: first_value_def)

lemma create_SomeD:
  "create env n dataElements = Some (g, n') \<Longrightarrow>
   \<exists>items. contentSequence (getSRContent env dataElements) = Some items \<and>
           create_items env n items = Some (getList g, n')"
  by (auto simp: create_def Let_def getList_def setMeta_def AnnotationGroup_def
      split: Option.bind_splits if_splits)

lemma create_None:
  "js_get dataElements ''00080060'' = JUndefined \<or> js_get dataElements ''0020000D'' = JUndefined \<Longrightarrow>
   create env n dataElements = None"
  by (auto simp: create_def Let_def split: Option.bind_splits if_splits)

lemma create_with_series:
  assumes "contentSequence (getSRContent env dataElements) = Some items"
    and "create_items env n items = Some (annotations, n')"
    and "first_value (js_get dataElements ''00080060'') = Some modality"
    and "first_value (js_get dataElements ''0020000D'') = Some study"
    and "first_value (js_get dataElements ''00081115'') = Some item0"
    and "js_prop item0 ''0020000E'' = Some seriesElement"
    and "seriesElement \<noteq> JUndefined"
    and "first_value seriesElement = Some seriesUID"
  shows "create env n dataElements =
           Some (\<lparr>group_list = annotations,
                  group_meta = [''Modality'' \<mapsto> modality,
                    ''ReferencedSeriesSequence'' \<mapsto>
                       JObject [(''value'', JArray [JObject [(''SeriesInstanceUID'', seriesUID)]])],
                    ''StudyInstanceUID'' \<mapsto> study]\<rparr>, n')"
proof -
  from assms(5) have "js_get dataElements ''00081115'' \<noteq> JUndefined"
    by auto
  with assms show ?thesis
    by (simp add: create_def Let_def setMeta_def AnnotationGroup_def)
qed

text \<open>When the loops and \<^verbatim>\<open>create\<close> return.\<close>

lemma create_subItems_returns:
  "(create_subItems a subItems \<noteq> None) = list_all image_readable subItems"
proof (induction subItems arbitrary: a)
  case Nil
  then show ?case by simp
next
  case (Cons s subItems)
  show ?case
  proof (cases "image_selectedFrom s")
    case True
    then show ?thesis
      using Cons.IH
      by (cases "referencedSOPInstanceUID_of s")
         (auto simp: image_readable_def image_selectedFrom_def referencedSOPInstanceUID_of_def
           split: Option.bind_splits)
  next
    case False
    then show ?thesis
      using Cons.IH
      by (auto simp: image_readable_def image_selectedFrom_def)
  qed
qed

lemma create_items_returns:
  "(create_items env n items \<noteq> None) = list_all scoord_readable (scoord_items items)"
proof (induction items arbitrary: n)
  case Nil
  then show ?case by (simp add: scoord_items_def)
next
  case (Cons item items)
  show ?case
  proof (cases "valueType item = ValueTypes_scoord")
    case False
    with Cons.IH show ?thesis by (simp add: scoord_items_def)
  next
    case True
    show ?thesis
    proof (cases "contentSequence item")
      case None
      with True show ?thesis by (simp add: scoord_items_def scoord_readable_def)
    next
      case (Some subItems)
      let ?a = "new_Annotation
              \<lparr>mathShape := getShapeFromScoord env (sr_value item)\<rparr>
              \<lparr>id' := JString (guid env n)\<rparr>
              \<lparr>textExpr := JString []\<rparr>"
      show ?thesis
      proof (cases "create_subItems ?a subItems")
        case None
        with create_subItems_returns [of ?a subItems] True Some show ?thesis
          by (simp add: scoord_items_def scoord_readable_def)
      next
        case (Some a')
        with create_subItems_returns [of ?a subItems] True \<open>contentSequence item = Some subItems\<close>
          Cons.IH [of "Suc n"]
        show ?thesis
          by (cases "create_items env (Suc n) items")
             (auto simp: scoord_items_def scoord_readable_def)
      qed
    qed
  qed
qed

lemma create_returns:
  "(create env n dataElements \<noteq> None) =
     ((case contentSequence (getSRContent env dataElements) of
         None \<Rightarrow> False
       | Some items \<Rightarrow> list_all scoord_readable (scoord_items items)) \<and>
      first_value (js_get dataElements ''00080060'') \<noteq> None \<and>
      series_readable dataElements \<and>
      first_value (js_get dataElements ''0020000D'') \<noteq> None)"
proof (cases "contentSequence (getSRContent env dataElements)")
  case None
  then show ?thesis by (simp add: create_def)
next
  case (Some items)
  show ?thesis
  proof (cases "create_items env n items")
    case None
    with Some create_items_returns [of env n items] show ?thesis
      by (simp add: create_def)
  next
    case created: (Some r)
    with create_items_returns [of env n items]
    have "list_all scoord_readable (scoord_items items)"
      by simp
    with Some created show ?thesis
      by (cases r)
         (auto simp: create_def Let_def series_readable_def
           split: Option.bind_splits option.splits if_splits)
  qed
qed

text \<open>The three metadata values of a created group.\<close>

lemma create_meta:
  assumes "create env n dataElements = Some (g, n')"
  shows "group_meta g ''Modality'' = first_value (js_get dataElements ''00080060'')"
    and "group_meta g ''StudyInstanceUID'' = first_value (js_get dataElements ''0020000D'')"
    and "group_meta g ''ReferencedSeriesSequence'' =
      (case seriesElement_of dataElements of
         None \<Rightarrow> None
       | Some seriesElement \<Rightarrow>
           if seriesElement = JUndefined then None
           else map_option
                  (\<lambda>uid. JObject [(''value'', JArray [JObject [(''SeriesInstanceUID'', uid)]])])
                  (first_value seriesElement))"
  using assms
  by (auto simp: create_def Let_def setMeta_def AnnotationGroup_def seriesElement_of_def
      split: Option.bind_splits if_splits)

lemma series_readable_seriesElement:
  "series_readable dataElements \<longleftrightarrow>
     js_get dataElements ''00081115'' = JUndefined \<or>
     (\<exists>seriesElement. seriesElement_of dataElements = Some seriesElement \<and>
        (seriesElement = JUndefined \<or> first_value seriesElement \<noteq> None))"
  by (auto simp: series_readable_def seriesElement_of_def split: option.splits)

text \<open>Whatever the collaborators do, a created group has at most three metadata keys.\<close>

lemma create_meta_dom:
  "create env n dataElements = Some (g, n') \<Longrightarrow>
   dom (group_meta g) \<subseteq> {''Modality'', ''ReferencedSeriesSequence'', ''StudyInstanceUID''}"
  by (auto simp: create_def Let_def setMeta_def AnnotationGroup_def
      split: Option.bind_splits if_splits)

section \<open>The samples evaluated\<close>

lemmas sample_defs =
  sample_modules_for_def sample_modules_def sample_group_def sample_group_extra_def
  sample_annotation_def sample_root_def sample_children_def sample_dataElements_def
  sample_required_def sample_empty_series_def sample_writer_def sample_builder_def
  sample_created_def DataElement_def

lemma sample_create:
  "create (sample_modules sample_root) 0 sample_dataElements = Some (sample_created, 2)"
  by (simp add: create_def sample_defs first_value_def js_get_def array_first_def
      new_Annotation_def AnnotationGroup_def setMeta_def)





lemma sample_writer_keys: "Object_keys (sample_writer node) = [''ValueType'', ''ContentSequence'']"
  by (simp add: sample_writer_def Object_keys_def)

lemma sample_getDicomSRContentItem [simp]:
  "getDicomSRContentItem (sample_modules root) = sample_writer"
  by (simp add: sample_modules_def)

text \<open>The codec that parses: what the builder stores, and what the reader finds.\<close>

lemma map_of_dictionary_builder:
  "(name, key) \<in> set dictionary \<Longrightarrow> distinct (map snd dictionary) \<Longrightarrow>
   js_get tags name \<noteq> JUndefined \<Longrightarrow>
   map_of (dictionary_builder dictionary tags) key =
     Some (snd (sample_builder_tag (name, js_get tags name)))"
proof (induction dictionary)
  case Nil
  then show ?case by simp
next
  case (Cons entry dictionary)
  obtain name' key' where entry: "entry = (name', key')"
    by (cases entry)
  have step: "dictionary_builder (entry # dictionary) tags =
      (if js_get tags name' \<noteq> JUndefined
       then [(key', snd (sample_builder_tag (name', js_get tags name')))] else []) @
      dictionary_builder dictionary tags"
    by (simp add: dictionary_builder_def entry)
  show ?case
  proof (cases "(name, key) = entry")
    case True
    with entry have "name' = name" "key' = key"
      by simp_all
    with Cons.prems(3) show ?thesis
      unfolding step by simp
  next
    case False
    with Cons.prems have rest: "(name, key) \<in> set dictionary" "distinct (map snd dictionary)"
      by simp_all
    from Cons.prems(2) rest(1) entry have "key \<noteq> key'"
      by (auto simp: image_iff)
    with Cons.IH [OF rest Cons.prems(3)] show ?thesis
      unfolding step by simp
  qed
qed

lemma js_get_dictionary_builder:
  "(name, key) \<in> set dictionary \<Longrightarrow> distinct (map snd dictionary) \<Longrightarrow>
   js_get tags name \<noteq> JUndefined \<Longrightarrow>
   js_get (dictionary_builder dictionary tags) key =
     snd (sample_builder_tag (name, js_get tags name))"
  by (rule js_get_map_of) (rule map_of_dictionary_builder)

lemma distinct_sample_dictionary: "distinct (map snd sample_dictionary)"
  by (simp add: sample_dictionary_def)

lemma js_get_sample_builder:
  "js_get tags ''Modality'' \<noteq> JUndefined \<Longrightarrow>
     js_get (dictionary_builder sample_dictionary tags) ''00080060'' =
       DataElement [js_get tags ''Modality'']"
  "js_get tags ''StudyInstanceUID'' \<noteq> JUndefined \<Longrightarrow>
     js_get (dictionary_builder sample_dictionary tags) ''0020000D'' =
       DataElement [js_get tags ''StudyInstanceUID'']"
  "js_get tags ''ConceptNameCodeSequence'' \<noteq> JUndefined \<Longrightarrow>
     js_get (dictionary_builder sample_dictionary tags) ''0040A043'' =
       DataElement [js_get tags ''ConceptNameCodeSequence'']"
  "js_get tags ''ContentSequence'' \<noteq> JUndefined \<Longrightarrow>
     js_get (dictionary_builder sample_dictionary tags) ''0040A730'' =
       DataElement [js_get tags ''ContentSequence'']"
  "js_get tags ''ReferencedSeriesSequence'' \<noteq> JUndefined \<Longrightarrow>
     js_get (dictionary_builder sample_dictionary tags) ''00081115'' =
       snd (sample_builder_tag (''ReferencedSeriesSequence'',
                                js_get tags ''ReferencedSeriesSequence''))"
proof -
  note lookup = js_get_dictionary_builder [OF _ distinct_sample_dictionary]
  show "js_get tags ''Modality'' \<noteq> JUndefined \<Longrightarrow>
     js_get (dictionary_builder sample_dictionary tags) ''00080060'' =
       DataElement [js_get tags ''Modality'']"
    using lookup [of "''Modality''" "''00080060''" tags] by (simp add: sample_dictionary_def)
  show "js_get tags ''StudyInstanceUID'' \<noteq> JUndefined \<Longrightarrow>
     js_get (dictionary_builder sample_dictionary tags) ''0020000D'' =
       DataElement [js_get tags ''StudyInstanceUID'']"
    using lookup [of "''StudyInstanceUID''" "''0020000D''" tags] by (simp add: sample_dictionary_def)
  show "js_get tags ''ConceptNameCodeSequence'' \<noteq> JUndefined \<Longrightarrow>
     js_get (dictionary_builder sample_dictionary tags) ''0040A043'' =
       DataElement [js_get tags ''ConceptNameCodeSequence'']"
    using lookup [of "''ConceptNameCodeSequence''" "''0040A043''" tags]
    by (simp add: sample_dictionary_def)
  show "js_get tags ''ContentSequence'' \<noteq> JUndefined \<Longrightarrow>
     js_get (dictionary_builder sample_dictionary tags) ''0040A730'' =
       DataElement [js_get tags ''ContentSequence'']"
    using lookup [of "''ContentSequence''" "''0040A730''" tags] by (simp add: sample_dictionary_def)
  show "js_get tags ''ReferencedSeriesSequence'' \<noteq> JUndefined \<Longrightarrow>
     js_get (dictionary_builder sample_dictionary tags) ''00081115'' =
       snd (sample_builder_tag (''ReferencedSeriesSequence'',
                                js_get tags ''ReferencedSeriesSequence''))"
    using lookup [of "''ReferencedSeriesSequence''" "''00081115''" tags]
    by (simp add: sample_dictionary_def)
qed

lemma first_value_DataElement_Cons: "first_value (DataElement (v # vs)) = Some v"
  by (simp add: first_value_def DataElement_def js_get_def array_first_def)

lemma parsing_modules_fields [simp]:
  "getSRContent parsing_modules = parsing_reader"
  "getDicomSRContentItem parsing_modules = parsing_writer"
  "getElementsFromJSONTags parsing_modules = dictionary_builder sample_dictionary"
  "getShapeFromScoord parsing_modules (getScoordFromShape parsing_modules shape) = shape"
  "getMeasurementGroupCode parsing_modules =
     \<lparr>code_value = ''125007'', code_meaning = ''Measurement Group''\<rparr>"
  by (simp_all add: parsing_modules_def sample_modules_def js_get_def)

lemma sample_item_reader_writer:
  "sample_item_reader (sample_item_writer (srScoord parsing_modules a)) =
     srScoord parsing_modules a"
  by (simp add: sample_item_reader_def sample_item_writer_def srScoord_def sample_field_def
      js_get_def parsing_modules_def sample_modules_def)

lemma parsing_writer_root:
  "parsing_writer (toDicom_srContent parsing_modules items) =
     [(''ValueType'', JString ''CONTAINER''),
      (''ConceptNameCodeSequence'',
         sample_code_writer \<lparr>code_value = ''125007'', code_meaning = ''Measurement Group''\<rparr>),
      (''ContentSequence'', JArray (map sample_item_writer items))]"
  by (simp add: parsing_writer_def toDicom_srContent_def)

lemma parsing_writer_keys:
  "Object_keys (parsing_writer (toDicom_srContent parsing_modules items)) =
     [''ValueType'', ''ConceptNameCodeSequence'', ''ContentSequence'']"
  by (simp add: parsing_writer_root Object_keys_def)

text \<open>
  The reader finds the tree that \<^verbatim>\<open>toDicom\<close> builds of any list of annotations, in the
  elements built from any tag object that the writer's tags were spread over.
\<close>

lemma parsing_reader_finds:
  "parsing_reader (dictionary_builder sample_dictionary
     (spread tags (parsing_writer
        (toDicom_srContent parsing_modules (map (srScoord parsing_modules) annotations))))) =
   toDicom_srContent parsing_modules (map (srScoord parsing_modules) annotations)"
proof -
  let ?items = "map (srScoord parsing_modules) annotations"
  let ?w = "parsing_writer (toDicom_srContent parsing_modules ?items)"
  let ?code = "\<lparr>code_value = ''125007'', code_meaning = ''Measurement Group''\<rparr>"
  have code: "js_get (spread tags ?w) ''ConceptNameCodeSequence'' = sample_code_writer ?code"
    and content: "js_get (spread tags ?w) ''ContentSequence'' =
      JArray (map sample_item_writer ?items)"
    by (simp_all add: js_get_spread parsing_writer_keys)
       (simp_all add: parsing_writer_root js_get_def)
  have "js_get (dictionary_builder sample_dictionary (spread tags ?w)) ''0040A043'' =
      DataElement [sample_code_writer ?code]"
    using js_get_sample_builder(3) [of "spread tags ?w"]
    by (simp add: code sample_code_writer_def)
  moreover have "js_get (dictionary_builder sample_dictionary (spread tags ?w)) ''0040A730'' =
      DataElement [JArray (map sample_item_writer ?items)]"
    using js_get_sample_builder(4) [of "spread tags ?w"]
    by (simp add: content)
  moreover have "map (sample_item_reader \<circ> (sample_item_writer \<circ> srScoord parsing_modules))
      annotations = map (srScoord parsing_modules) annotations"
    by (rule map_cong) (simp_all add: sample_item_reader_writer)
  ultimately show ?thesis
    by (simp add: parsing_reader_def first_value_def DataElement_def js_get_def array_first_def
        sample_code_reader_def sample_code_writer_def toDicom_srContent_def)
qed

text \<open>
  \<^verbatim>\<open>create\<close> on the elements that the codec builds of a tag object with Modality,
  StudyInstanceUID and a referenced series sequence, and of the tree of a list of
  annotations.
\<close>

lemma parsing_create:
  assumes m: "js_get tags ''Modality'' = modality" "modality \<noteq> JUndefined"
    and s: "js_get tags ''StudyInstanceUID'' = study" "study \<noteq> JUndefined"
    and r: "js_get tags ''ReferencedSeriesSequence'' =
              JObject [(''value'', JArray (JObject item # rest))]"
  shows "create parsing_modules n
     (dictionary_builder sample_dictionary
        (spread tags (parsing_writer
           (toDicom_srContent parsing_modules (map (srScoord parsing_modules) annotations))))) =
     Some (\<lparr>group_list = annotations,
            group_meta = [''Modality'' \<mapsto> modality,
              ''ReferencedSeriesSequence'' \<mapsto>
                 JObject [(''value'',
                   JArray [JObject [(''SeriesInstanceUID'', js_get item ''SeriesInstanceUID'')]])],
              ''StudyInstanceUID'' \<mapsto> study]\<rparr>, n + length annotations)"
proof -
  let ?items = "map (srScoord parsing_modules) annotations"
  let ?tags = "spread tags (parsing_writer (toDicom_srContent parsing_modules ?items))"
  let ?E = "dictionary_builder sample_dictionary ?tags"
  let ?uid = "js_get item ''SeriesInstanceUID''"
  have tags: "js_get ?tags ''Modality'' = modality" "js_get ?tags ''StudyInstanceUID'' = study"
    "js_get ?tags ''ReferencedSeriesSequence'' = JObject [(''value'', JArray (JObject item # rest))]"
    by (simp_all add: js_get_spread parsing_writer_keys m s r)
  have "getSRContent parsing_modules ?E = toDicom_srContent parsing_modules ?items"
    by (simp add: parsing_reader_finds)
  then have items: "contentSequence (getSRContent parsing_modules ?E) = Some ?items"
    by (simp add: toDicom_srContent_def)
  have created: "create_items parsing_modules n ?items = Some (annotations, n + length annotations)"
    by (simp add: create_items_srScoord)
  have "js_get ?E ''00080060'' = DataElement [modality]"
    using js_get_sample_builder(1) [of ?tags] m(2) by (simp add: tags)
  then have modality: "first_value (js_get ?E ''00080060'') = Some modality"
    by (simp add: first_value_DataElement_Cons)
  have "js_get ?E ''0020000D'' = DataElement [study]"
    using js_get_sample_builder(2) [of ?tags] s(2) by (simp add: tags)
  then have study: "first_value (js_get ?E ''0020000D'') = Some study"
    by (simp add: first_value_DataElement_Cons)
  have "js_get ?E ''00081115'' = DataElement [JObject [(''0020000E'', DataElement [?uid])]]"
    using js_get_sample_builder(5) [of ?tags]
    by (simp add: tags) (simp add: js_get_def array_first_def)
  then have item0: "first_value (js_get ?E ''00081115'') =
      Some (JObject [(''0020000E'', DataElement [?uid])])"
    by (simp add: first_value_DataElement_Cons)
  have seriesElement:
    "js_prop (JObject [(''0020000E'', DataElement [?uid])]) ''0020000E'' = Some (DataElement [?uid])"
    "DataElement [?uid] \<noteq> JUndefined"
    "first_value (DataElement [?uid]) = Some ?uid"
    by (simp_all add: first_value_DataElement_Cons) (simp_all add: DataElement_def js_get_def)
  from items created modality study item0 seriesElement show ?thesis
    by (rule create_with_series)
qed

lemma parsing_toDicom:
  "getList G \<noteq> [] \<Longrightarrow>
   fst (toDicom parsing_modules now G None) =
     dictionary_builder sample_dictionary
       (spread (toDicom_fixed parsing_modules now G)
          (parsing_writer
             (toDicom_srContent parsing_modules (map (srScoord parsing_modules) (getList G)))))"
  by (simp add: toDicom_def toDicom_tags_def Let_def)

section \<open>The claims\<close>

subsection \<open>C1\<close>

text \<open>
  Claim C1 as stated fails in two ways, both with a non-empty list, with Modality,
  StudyInstanceUID and ReferencedSeriesSequence set and with a referenceSopUID in
  every annotation. A group with one more metadata key, \<^verbatim>\<open>PatientName\<close>, comes back
  without it. And a group whose referenced series sequence holds a second attribute
  in its item comes back with the sequence \<^verbatim>\<open>{value: [{SeriesInstanceUID: uid}]}\<close>.
  In both cases the list comes back unchanged, and the result is the sample group.
\<close>

theorem create_toDicom_roundtrip_counterexample:
  "getList sample_group_extra \<noteq> [] \<and>
   getMeta sample_group_extra ''Modality'' = JString ''MR'' \<and>
   getMeta sample_group_extra ''StudyInstanceUID'' = JString ''1.2.3'' \<and>
   getMeta sample_group_extra ''ReferencedSeriesSequence'' =
     JObject [(''value'', JArray [JObject [(''SeriesInstanceUID'', JString ''1.2.3.4'')]])] \<and>
   map referenceSopUID (getList sample_group_extra) =
     [JString ''1.2.840.1'', JString ''1.2.840.1'', JString ''1.2.840.1''] \<and>
   create parsing_modules 0 (fst (toDicom parsing_modules 0 sample_group_extra None)) =
     Some (sample_group, 3) \<and>
   getMeta sample_group_extra ''PatientName'' = JString ''Doe'' \<and>
   getMeta sample_group ''PatientName'' = JUndefined \<and>
   getList sample_group_series = getList sample_group_extra \<and>
   getMeta sample_group_series ''Modality'' = JString ''MR'' \<and>
   getMeta sample_group_series ''StudyInstanceUID'' = JString ''1.2.3'' \<and>
   getMeta sample_group_series ''ReferencedSeriesSequence'' =
     JObject [(''value'', JArray [JObject [(''SeriesInstanceUID'', JString ''1.2.3.4''),
                                          (''SeriesDescription'', JString ''T1'')]])] \<and>
   create parsing_modules 0 (fst (toDicom parsing_modules 0 sample_group_series None)) =
     Some (sample_group, 3) \<and>
   getMeta sample_group ''ReferencedSeriesSequence'' =
     JObject [(''value'', JArray [JObject [(''SeriesInstanceUID'', JString ''1.2.3.4'')]])]"
proof -
  let ?series = "JObject [(''value'', JArray [JObject [(''SeriesInstanceUID'', JString ''1.2.3.4'')]])]"
  have lists: "getList sample_group \<noteq> []" "getList sample_group_extra = getList sample_group"
    "getList sample_group_series = getList sample_group"
    by (simp_all add: sample_group_extra_def sample_group_series_def sample_group_def setMeta_def
        getList_def)
  have created: "create parsing_modules 0 (fst (toDicom parsing_modules 0 G None)) =
      Some (\<lparr>group_list = getList sample_group,
             group_meta = [''Modality'' \<mapsto> JString ''MR'',
               ''ReferencedSeriesSequence'' \<mapsto>
                 JObject [(''value'',
                   JArray [JObject [(''SeriesInstanceUID'', js_get item ''SeriesInstanceUID'')]])],
               ''StudyInstanceUID'' \<mapsto> JString ''1.2.3'']\<rparr>, 0 + length (getList sample_group))"
    if "getList G = getList sample_group" and "getMeta G ''Modality'' = JString ''MR''"
      and "getMeta G ''StudyInstanceUID'' = JString ''1.2.3''"
      and "getMeta G ''ReferencedSeriesSequence'' = JObject [(''value'', JArray [JObject item])]"
    for G item
    unfolding parsing_toDicom [of G, unfolded that(1), OF lists(1)]
    by (rule parsing_create) (simp_all add: toDicom_fixed_def js_get_def that)
  have extra: "getMeta sample_group_extra ''Modality'' = JString ''MR''"
    "getMeta sample_group_extra ''StudyInstanceUID'' = JString ''1.2.3''"
    "getMeta sample_group_extra ''ReferencedSeriesSequence'' =
       JObject [(''value'', JArray [JObject [(''SeriesInstanceUID'', JString ''1.2.3.4'')]])]"
    "getMeta sample_group_extra ''PatientName'' = JString ''Doe''"
    by (simp_all add: sample_group_extra_def sample_group_def setMeta_def getMeta_def)
  have series: "getMeta sample_group_series ''Modality'' = JString ''MR''"
    "getMeta sample_group_series ''StudyInstanceUID'' = JString ''1.2.3''"
    "getMeta sample_group_series ''ReferencedSeriesSequence'' =
       JObject [(''value'', JArray [JObject [(''SeriesInstanceUID'', JString ''1.2.3.4''),
                                            (''SeriesDescription'', JString ''T1'')]])]"
    by (simp_all add: sample_group_series_def sample_group_def setMeta_def getMeta_def)
  have sample: "getMeta sample_group ''PatientName'' = JUndefined"
    "getMeta sample_group ''ReferencedSeriesSequence'' = ?series"
    "map referenceSopUID (getList sample_group) =
       [JString ''1.2.840.1'', JString ''1.2.840.1'', JString ''1.2.840.1'']"
    by (simp_all add: sample_group_def getMeta_def getList_def sample_annotation_def)
  have 1: "create parsing_modules 0 (fst (toDicom parsing_modules 0 sample_group_extra None)) =
     Some (sample_group, 3)"
    unfolding created [OF lists(2) extra(1,2,3)]
    by (simp add: js_get_def) (simp add: sample_group_def getList_def)
  have 2: "create parsing_modules 0 (fst (toDicom parsing_modules 0 sample_group_series None)) =
     Some (sample_group, 3)"
    unfolding created [OF lists(3) series]
    by (simp add: js_get_def) (simp add: sample_group_def getList_def)
  from lists extra series sample 1 2 show ?thesis
    by simp
qed

text \<open>
  Claim C1 (round trip), as amended. Let \<open>G\<close> be a group with a non-empty list and a
  referenced series sequence of the form \<^verbatim>\<open>{value: [{SeriesInstanceUID: uid}]}\<close>, and
  let the collaborators keep these contracts. The writer gives none of the tags
  Modality, StudyInstanceUID and ReferencedSeriesSequence for the tree of \<open>G\<close>. The
  reader finds the tree of \<open>G\<close> in the elements built from any tag object that the
  writer's tags of that tree were spread over. The element builder stores, for any
  tag object that holds them, the Modality of \<open>G\<close> as the first value of 00080060, its
  StudyInstanceUID as the first value of 0020000D, and the series UID of its
  sequence as the first value of the sub-element 0020000E of the first item of
  00081115. The shape codec decodes what it encoded for the shapes of \<open>G\<close>. Then
  \<^verbatim>\<open>create(toDicom(G))\<close> returns a group whose annotation list is the list of \<open>G\<close>
  (every field, in the same order) and whose Modality, StudyInstanceUID and
  ReferencedSeriesSequence metadata are those of \<open>G\<close>. These three are the only
  metadata keys of the result. For any collaborators and any elements, a group that
  \<^verbatim>\<open>create\<close> returns has no other metadata key, and its ReferencedSeriesSequence, if
  set, has that form: no other key and no other form of the sequence is carried over.
\<close>

theorem create_toDicom_roundtrip:
  assumes list: "getList G \<noteq> []"
    and series: "getMeta G ''ReferencedSeriesSequence'' =
           JObject [(''value'', JArray [JObject [(''SeriesInstanceUID'', seriesUID)]])]"
    and writer: "{''Modality'', ''StudyInstanceUID'', ''ReferencedSeriesSequence''} \<inter>
           set (Object_keys (getDicomSRContentItem env
                  (toDicom_srContent env (map (srScoord env) (getList G))))) = {}"
    and reader: "\<forall>tags. getSRContent env (getElementsFromJSONTags env
             (spread tags (getDicomSRContentItem env
                (toDicom_srContent env (map (srScoord env) (getList G)))))) =
           toDicom_srContent env (map (srScoord env) (getList G))"
    and modality: "\<forall>tags. js_get tags ''Modality'' = getMeta G ''Modality'' \<longrightarrow>
           first_value (js_get (getElementsFromJSONTags env tags) ''00080060'') =
             Some (getMeta G ''Modality'')"
    and study: "\<forall>tags. js_get tags ''StudyInstanceUID'' = getMeta G ''StudyInstanceUID'' \<longrightarrow>
           first_value (js_get (getElementsFromJSONTags env tags) ''0020000D'') =
             Some (getMeta G ''StudyInstanceUID'')"
    and sequence: "\<forall>tags. js_get tags ''ReferencedSeriesSequence'' =
             getMeta G ''ReferencedSeriesSequence'' \<longrightarrow>
           (\<exists>seriesElement.
              seriesElement_of (getElementsFromJSONTags env tags) = Some seriesElement \<and>
              seriesElement \<noteq> JUndefined \<and> first_value seriesElement = Some seriesUID)"
    and codec: "\<forall>a \<in> set (getList G).
           getShapeFromScoord env (getScoordFromShape env (mathShape a)) = mathShape a"
  shows "(\<exists>g. create env n (fst (toDicom env now G None)) = Some (g, n + length (getList G)) \<and>
           getList g = getList G \<and>
           getMeta g ''Modality'' = getMeta G ''Modality'' \<and>
           getMeta g ''StudyInstanceUID'' = getMeta G ''StudyInstanceUID'' \<and>
           getMeta g ''ReferencedSeriesSequence'' = getMeta G ''ReferencedSeriesSequence'' \<and>
           dom (group_meta g) = {''Modality'', ''ReferencedSeriesSequence'', ''StudyInstanceUID''}) \<and>
         (\<forall>dataElements g n'. create env n dataElements = Some (g, n') \<longrightarrow>
           dom (group_meta g) \<subseteq> {''Modality'', ''ReferencedSeriesSequence'', ''StudyInstanceUID''} \<and>
           (group_meta g ''ReferencedSeriesSequence'' = None \<or>
            (\<exists>uid. group_meta g ''ReferencedSeriesSequence'' =
               Some (JObject [(''value'', JArray [JObject [(''SeriesInstanceUID'', uid)]])]))))"
proof (intro conjI allI impI)
  let ?root = "toDicom_srContent env (map (srScoord env) (getList G))"
  let ?fixed = "toDicom_fixed env now G"
  let ?tags = "spread ?fixed (getDicomSRContentItem env ?root)"
  let ?E = "fst (toDicom env now G None)"
  have exported: "?E = getElementsFromJSONTags env ?tags"
    using list by (simp add: toDicom_def toDicom_tags_def Let_def)
  have kept: "js_get ?tags k = js_get ?fixed k"
    if "k \<in> {''Modality'', ''StudyInstanceUID'', ''ReferencedSeriesSequence''}" for k
    using that writer by (auto simp: js_get_spread)
  have tags: "js_get ?tags ''Modality'' = getMeta G ''Modality''"
    "js_get ?tags ''StudyInstanceUID'' = getMeta G ''StudyInstanceUID''"
    "js_get ?tags ''ReferencedSeriesSequence'' = getMeta G ''ReferencedSeriesSequence''"
    by (simp_all add: kept) (simp_all add: toDicom_fixed_def js_get_def)
  have items: "contentSequence (getSRContent env ?E) = Some (map (srScoord env) (getList G))"
    unfolding exported using reader by (simp add: toDicom_srContent_def)
  have "map (\<lambda>a. a\<lparr>mathShape := getShapeFromScoord env (getScoordFromShape env (mathShape a))\<rparr>)
          (getList G) = getList G"
    using codec by (simp add: map_idI)
  then have created: "create_items env n (map (srScoord env) (getList G)) =
      Some (getList G, n + length (getList G))"
    by (simp add: create_items_srScoord)
  from modality tags(1) have m: "first_value (js_get ?E ''00080060'') = Some (getMeta G ''Modality'')"
    unfolding exported by blast
  from study tags(2) have s: "first_value (js_get ?E ''0020000D'') =
      Some (getMeta G ''StudyInstanceUID'')"
    unfolding exported by blast
  from sequence tags(3) obtain seriesElement
    where "seriesElement_of ?E = Some seriesElement"
      and element: "seriesElement \<noteq> JUndefined" "first_value seriesElement = Some seriesUID"
    unfolding exported by blast
  then obtain item0 where item0: "first_value (js_get ?E ''00081115'') = Some item0"
      "js_prop item0 ''0020000E'' = Some seriesElement"
    by (auto simp: seriesElement_of_def split: Option.bind_splits)
  from create_with_series [OF items created m s item0 element]
  show "\<exists>g. create env n ?E = Some (g, n + length (getList G)) \<and>
           getList g = getList G \<and>
           getMeta g ''Modality'' = getMeta G ''Modality'' \<and>
           getMeta g ''StudyInstanceUID'' = getMeta G ''StudyInstanceUID'' \<and>
           getMeta g ''ReferencedSeriesSequence'' = getMeta G ''ReferencedSeriesSequence'' \<and>
           dom (group_meta g) = {''Modality'', ''ReferencedSeriesSequence'', ''StudyInstanceUID''}"
    using series by (auto simp: getList_def getMeta_def)
next
  fix dataElements g n'
  assume created: "create env n dataElements = Some (g, n')"
  then show "dom (group_meta g) \<subseteq> {''Modality'', ''ReferencedSeriesSequence'', ''StudyInstanceUID''}"
    by (rule create_meta_dom)
  show "group_meta g ''ReferencedSeriesSequence'' = None \<or>
            (\<exists>uid. group_meta g ''ReferencedSeriesSequence'' =
               Some (JObject [(''value'', JArray [JObject [(''SeriesInstanceUID'', uid)]])]))"
    unfolding create_meta(3) [OF created]
    by (auto split: option.splits)
qed

text \<open>
  The round trip of the sample group of three annotations (after seven identifiers),
  with the codec that parses.
\<close>

theorem create_toDicom_roundtrip_witness:
  "getList sample_group \<noteq> [] \<and>
   getMeta sample_group ''Modality'' = JString ''MR'' \<and>
   getMeta sample_group ''StudyInstanceUID'' = JString ''1.2.3'' \<and>
   getMeta sample_group ''ReferencedSeriesSequence'' =
     JObject [(''value'', JArray [JObject [(''SeriesInstanceUID'', JString ''1.2.3.4'')]])] \<and>
   Object_keys (getDicomSRContentItem parsing_modules
     (toDicom_srContent parsing_modules (map (srScoord parsing_modules) (getList sample_group)))) =
     [''ValueType'', ''ConceptNameCodeSequence'', ''ContentSequence''] \<and>
   (\<exists>g. create parsing_modules 7 (fst (toDicom parsing_modules 0 sample_group None)) =
          Some (g, 10) \<and>
        getList g = getList sample_group \<and>
        getMeta g ''Modality'' = JString ''MR'' \<and>
        getMeta g ''StudyInstanceUID'' = JString ''1.2.3'' \<and>
        getMeta g ''ReferencedSeriesSequence'' = getMeta sample_group ''ReferencedSeriesSequence'' \<and>
        dom (group_meta g) = {''Modality'', ''ReferencedSeriesSequence'', ''StudyInstanceUID''})"
proof -
  let ?env = "parsing_modules"
  let ?root = "toDicom_srContent ?env (map (srScoord ?env) (getList sample_group))"
  have list: "getList sample_group \<noteq> []"
    by (simp add: getList_def sample_group_def)
  have meta: "getMeta sample_group ''Modality'' = JString ''MR''"
    "getMeta sample_group ''StudyInstanceUID'' = JString ''1.2.3''"
    "getMeta sample_group ''ReferencedSeriesSequence'' =
       JObject [(''value'', JArray [JObject [(''SeriesInstanceUID'', JString ''1.2.3.4'')]])]"
    by (simp_all add: getMeta_def sample_group_def)
  have keys: "Object_keys (getDicomSRContentItem ?env ?root) =
      [''ValueType'', ''ConceptNameCodeSequence'', ''ContentSequence'']"
    by (simp add: parsing_writer_keys)
  have writer: "{''Modality'', ''StudyInstanceUID'', ''ReferencedSeriesSequence''} \<inter>
      set (Object_keys (getDicomSRContentItem ?env ?root)) = {}"
    unfolding keys by simp
  have reader: "\<forall>tags. getSRContent ?env (getElementsFromJSONTags ?env
      (spread tags (getDicomSRContentItem ?env ?root))) = ?root"
    by (simp add: parsing_reader_finds)
  have modality: "\<forall>tags. js_get tags ''Modality'' = getMeta sample_group ''Modality'' \<longrightarrow>
      first_value (js_get (getElementsFromJSONTags ?env tags) ''00080060'') =
        Some (getMeta sample_group ''Modality'')"
  proof (intro allI impI)
    fix tags
    assume tag: "js_get tags ''Modality'' = getMeta sample_group ''Modality''"
    then have "js_get tags ''Modality'' \<noteq> JUndefined"
      by (simp add: meta)
    then have "js_get (dictionary_builder sample_dictionary tags) ''00080060'' =
        DataElement [js_get tags ''Modality'']"
      by (rule js_get_sample_builder)
    then show "first_value (js_get (getElementsFromJSONTags ?env tags) ''00080060'') =
        Some (getMeta sample_group ''Modality'')"
      by (simp add: tag first_value_DataElement_Cons)
  qed
  have study: "\<forall>tags. js_get tags ''StudyInstanceUID'' = getMeta sample_group ''StudyInstanceUID'' \<longrightarrow>
      first_value (js_get (getElementsFromJSONTags ?env tags) ''0020000D'') =
        Some (getMeta sample_group ''StudyInstanceUID'')"
  proof (intro allI impI)
    fix tags
    assume tag: "js_get tags ''StudyInstanceUID'' = getMeta sample_group ''StudyInstanceUID''"
    then have "js_get tags ''StudyInstanceUID'' \<noteq> JUndefined"
      by (simp add: meta)
    then have "js_get (dictionary_builder sample_dictionary tags) ''0020000D'' =
        DataElement [js_get tags ''StudyInstanceUID'']"
      by (rule js_get_sample_builder)
    then show "first_value (js_get (getElementsFromJSONTags ?env tags) ''0020000D'') =
        Some (getMeta sample_group ''StudyInstanceUID'')"
      by (simp add: tag first_value_DataElement_Cons)
  qed
  have sequence: "\<forall>tags. js_get tags ''ReferencedSeriesSequence'' =
        getMeta sample_group ''ReferencedSeriesSequence'' \<longrightarrow>
      (\<exists>seriesElement.
         seriesElement_of (getElementsFromJSONTags ?env tags) = Some seriesElement \<and>
         seriesElement \<noteq> JUndefined \<and> first_value seriesElement = Some (JString ''1.2.3.4''))"
  proof (intro allI impI)
    fix tags
    assume tag: "js_get tags ''ReferencedSeriesSequence'' =
        getMeta sample_group ''ReferencedSeriesSequence''"
    then have "js_get tags ''ReferencedSeriesSequence'' \<noteq> JUndefined"
      by (simp add: meta)
    then have "js_get (dictionary_builder sample_dictionary tags) ''00081115'' =
        snd (sample_builder_tag (''ReferencedSeriesSequence'',
                                 js_get tags ''ReferencedSeriesSequence''))"
      by (rule js_get_sample_builder)
    then have "js_get (getElementsFromJSONTags ?env tags) ''00081115'' =
        DataElement [JObject [(''0020000E'', DataElement [JString ''1.2.3.4''])]]"
      by (simp add: tag meta) (simp add: js_get_def array_first_def)
    then have "seriesElement_of (getElementsFromJSONTags ?env tags) =
        Some (DataElement [JString ''1.2.3.4''])"
      by (simp add: seriesElement_of_def first_value_DataElement_Cons) (simp add: js_get_def)
    moreover have "DataElement [JString ''1.2.3.4''] \<noteq> JUndefined"
      by (simp add: DataElement_def)
    moreover have "first_value (DataElement [JString ''1.2.3.4'']) = Some (JString ''1.2.3.4'')"
      by (rule first_value_DataElement_Cons)
    ultimately show "\<exists>seriesElement.
         seriesElement_of (getElementsFromJSONTags ?env tags) = Some seriesElement \<and>
         seriesElement \<noteq> JUndefined \<and> first_value seriesElement = Some (JString ''1.2.3.4'')"
      by (intro exI conjI)
  qed
  have codec: "\<forall>a \<in> set (getList sample_group).
      getShapeFromScoord ?env (getScoordFromShape ?env (mathShape a)) = mathShape a"
    by simp
  from create_toDicom_roundtrip [OF list meta(3) writer reader modality study sequence codec,
      of 7 0]
  have "\<exists>g. create ?env 7 (fst (toDicom ?env 0 sample_group None)) =
          Some (g, 7 + length (getList sample_group)) \<and>
        getList g = getList sample_group \<and>
        getMeta g ''Modality'' = getMeta sample_group ''Modality'' \<and>
        getMeta g ''StudyInstanceUID'' = getMeta sample_group ''StudyInstanceUID'' \<and>
        getMeta g ''ReferencedSeriesSequence'' = getMeta sample_group ''ReferencedSeriesSequence'' \<and>
        dom (group_meta g) = {''Modality'', ''ReferencedSeriesSequence'', ''StudyInstanceUID''}"
    by (rule conjunct1)
  moreover have "7 + length (getList sample_group) = 10"
    by (simp add: getList_def sample_group_def)
  ultimately have "\<exists>g. create ?env 7 (fst (toDicom ?env 0 sample_group None)) = Some (g, 10) \<and>
        getList g = getList sample_group \<and>
        getMeta g ''Modality'' = JString ''MR'' \<and>
        getMeta g ''StudyInstanceUID'' = JString ''1.2.3'' \<and>
        getMeta g ''ReferencedSeriesSequence'' = getMeta sample_group ''ReferencedSeriesSequence'' \<and>
        dom (group_meta g) = {''Modality'', ''ReferencedSeriesSequence'', ''StudyInstanceUID''}"
    by (simp add: meta(1,2))
  with list meta keys show ?thesis
    by (intro conjI)
qed

subsection \<open>C2\<close>

text \<open>
  Claim C2. \<^verbatim>\<open>checkElements\<close> returns \<^verbatim>\<open>No root concept name code\<close> when the root
  that the reader extracts has no concept-name code, \<^verbatim>\<open>Not a measurement group\<close> when
  it has one whose value differs from the value of the measurement-group code, and
  nothing when the values are equal. The returned value is what \<^verbatim>\<open>getWarning\<close>
  returns afterwards, and it does not depend on the warning stored before the call.
\<close>

theorem checkElements_warning:
  "(conceptNameCode (getSRContent env dataElements) = None \<longrightarrow>
      fst (checkElements env this dataElements) = Some ''No root concept name code'') \<and>
   (\<forall>code. conceptNameCode (getSRContent env dataElements) = Some code \<longrightarrow>
      fst (checkElements env this dataElements) =
        (if code_value code = code_value (getMeasurementGroupCode env) then None
         else Some ''Not a measurement group'')) \<and>
   getWarning (snd (checkElements env this dataElements)) =
     fst (checkElements env this dataElements) \<and>
   checkElements env this dataElements = checkElements env this' dataElements"
  by (cases this; cases this')
     (simp add: checkElements_def getWarning_def Let_def split: option.split)

text \<open>The three outcomes, each on a factory that holds an older warning or none.\<close>

theorem checkElements_warning_witness:
  "fst (checkElements (sample_modules (new_DicomSRContent ValueTypes_container))
         \<lparr>warning = Some ''Not a measurement group''\<rparr> sample_dataElements) =
     Some ''No root concept name code'' \<and>
   fst (checkElements (sample_modules (DicomSRContent ValueTypes_container None
           (Some \<lparr>code_value = ''111030'', code_meaning = ''Image Region''\<rparr>) JUndefined None))
         \<lparr>warning = None\<rparr> sample_dataElements) =
     Some ''Not a measurement group'' \<and>
   fst (checkElements (sample_modules sample_root)
         \<lparr>warning = Some ''No root concept name code''\<rparr> sample_dataElements) = None \<and>
   getWarning (snd (checkElements (sample_modules sample_root)
         \<lparr>warning = Some ''No root concept name code''\<rparr> sample_dataElements)) = None"
proof -
  let ?bare = "sample_modules (new_DicomSRContent ValueTypes_container)"
  let ?other = "sample_modules (DicomSRContent ValueTypes_container None
           (Some \<lparr>code_value = ''111030'', code_meaning = ''Image Region''\<rparr>) JUndefined None)"
  let ?group = "sample_modules sample_root"
  have bare: "conceptNameCode (getSRContent ?bare sample_dataElements) = None"
    by (simp add: sample_modules_def new_DicomSRContent_def)
  have other: "conceptNameCode (getSRContent ?other sample_dataElements) =
      Some \<lparr>code_value = ''111030'', code_meaning = ''Image Region''\<rparr>"
    by (simp add: sample_modules_def)
  have group: "conceptNameCode (getSRContent ?group sample_dataElements) =
      Some \<lparr>code_value = ''125007'', code_meaning = ''Measurement Group''\<rparr>"
    by (simp add: sample_modules_def sample_root_def)
  have codes: "code_value (getMeasurementGroupCode ?other) = ''125007''"
    "code_value (getMeasurementGroupCode ?group) = ''125007''"
    by (simp_all add: sample_modules_def)
  from checkElements_warning [of ?bare sample_dataElements
      "\<lparr>warning = Some ''Not a measurement group''\<rparr>"] bare
  have 1: "fst (checkElements ?bare \<lparr>warning = Some ''Not a measurement group''\<rparr>
      sample_dataElements) = Some ''No root concept name code''"
    by blast
  from checkElements_warning [of ?other sample_dataElements "\<lparr>warning = None\<rparr>"] other
  have "fst (checkElements ?other \<lparr>warning = None\<rparr> sample_dataElements) =
      (if code_value \<lparr>code_value = ''111030'', code_meaning = ''Image Region''\<rparr> =
          code_value (getMeasurementGroupCode ?other)
       then None else Some ''Not a measurement group'')"
    by blast
  then have 2: "fst (checkElements ?other \<lparr>warning = None\<rparr> sample_dataElements) =
      Some ''Not a measurement group''"
    by (simp add: codes)
  from checkElements_warning [of ?group sample_dataElements
      "\<lparr>warning = Some ''No root concept name code''\<rparr>"] group
  have "fst (checkElements ?group \<lparr>warning = Some ''No root concept name code''\<rparr>
      sample_dataElements) =
      (if code_value \<lparr>code_value = ''125007'', code_meaning = ''Measurement Group''\<rparr> =
          code_value (getMeasurementGroupCode ?group)
       then None else Some ''Not a measurement group'')"
    and "getWarning (snd (checkElements ?group \<lparr>warning = Some ''No root concept name code''\<rparr>
      sample_dataElements)) =
      fst (checkElements ?group \<lparr>warning = Some ''No root concept name code''\<rparr>
      sample_dataElements)"
    by blast+
  then have 3: "fst (checkElements ?group \<lparr>warning = Some ''No root concept name code''\<rparr>
      sample_dataElements) = None"
    and 4: "getWarning (snd (checkElements ?group \<lparr>warning = Some ''No root concept name code''\<rparr>
      sample_dataElements)) = None"
    by (simp_all add: codes)
  from 1 2 3 4 show ?thesis
    by blast
qed

subsection \<open>C3\<close>

text \<open>
  Claim C3. When \<^verbatim>\<open>create\<close> returns a group, its list has one annotation for each
  scoord child of the root, and the \<open>k\<close>-th annotation is read from the direct children
  of the \<open>k\<close>-th scoord child: the shape is decoded from the payload of the scoord; the
  id is the payload of the last uidref/hasProperties child, or the identifier generated
  for this annotation if there is none; the text is the payload of the last
  text/hasProperties child, or the empty string; the referenceSopUID is the
  referenced-SOP-instance field of the last image/selectedFrom child, or undefined.
  Only the value type, the relationship type and the payload of the direct children
  count: two content sequences that agree on them give the same annotation, whatever
  lies deeper. And \<^verbatim>\<open>create\<close> returns exactly when the root has a content sequence,
  every scoord child is readable, and the first values of the elements 00080060 and
  0020000D and the referenced series can be read; otherwise it throws.
\<close>

theorem create_annotation_fields:
  "(create env n dataElements = Some (g, n') \<longrightarrow>
     (\<exists>items. contentSequence (getSRContent env dataElements) = Some items \<and>
        length (getList g) = length (scoord_items items) \<and>
        (\<forall>k < length (getList g). \<exists>subItems.
           contentSequence (scoord_items items ! k) = Some subItems \<and>
           mathShape (getList g ! k) =
             getShapeFromScoord env (sr_value (scoord_items items ! k)) \<and>
           id' (getList g ! k) =
             (case last_where uidref_hasProperties subItems of
                None \<Rightarrow> JString (guid env (n + k)) | Some s \<Rightarrow> sr_value s) \<and>
           textExpr (getList g ! k) =
             (case last_where text_hasProperties subItems of
                None \<Rightarrow> JString [] | Some s \<Rightarrow> sr_value s) \<and>
           Some (referenceSopUID (getList g ! k)) =
             (case last_where image_selectedFrom subItems of
                None \<Rightarrow> Some JUndefined | Some s \<Rightarrow> referencedSOPInstanceUID_of s)))) \<and>
   (map node_fields subItems = map node_fields subItems' \<longrightarrow>
      create_subItems a subItems = create_subItems a subItems') \<and>
   (create env n dataElements \<noteq> None) =
     ((case contentSequence (getSRContent env dataElements) of
         None \<Rightarrow> False
       | Some items \<Rightarrow> list_all scoord_readable (scoord_items items)) \<and>
      first_value (js_get dataElements ''00080060'') \<noteq> None \<and>
      series_readable dataElements \<and>
      first_value (js_get dataElements ''0020000D'') \<noteq> None)"
proof (intro conjI impI)
  assume "create env n dataElements = Some (g, n')"
  then obtain items where items: "contentSequence (getSRContent env dataElements) = Some items"
    and created: "create_items env n items = Some (getList g, n')"
    by (blast dest: create_SomeD)
  let ?R = "\<lambda>(k, item) a. \<exists>subItems. contentSequence item = Some subItems \<and>
                  create_subItems (initial_annotation env k item) subItems = Some a"
  from create_items_Some [OF created]
  have n': "n' = n + length (scoord_items items)"
    and all: "list_all2 ?R (zip [n..<n'] (scoord_items items)) (getList g)"
    by blast+
  from all have len: "length (getList g) = length (scoord_items items)"
    by (auto simp: n' dest: list_all2_lengthD)
  have "\<exists>subItems.
           contentSequence (scoord_items items ! k) = Some subItems \<and>
           mathShape (getList g ! k) =
             getShapeFromScoord env (sr_value (scoord_items items ! k)) \<and>
           id' (getList g ! k) =
             (case last_where uidref_hasProperties subItems of
                None \<Rightarrow> JString (guid env (n + k)) | Some s \<Rightarrow> sr_value s) \<and>
           textExpr (getList g ! k) =
             (case last_where text_hasProperties subItems of
                None \<Rightarrow> JString [] | Some s \<Rightarrow> sr_value s) \<and>
           Some (referenceSopUID (getList g ! k)) =
             (case last_where image_selectedFrom subItems of
                None \<Rightarrow> Some JUndefined | Some s \<Rightarrow> referencedSOPInstanceUID_of s)"
    if k: "k < length (getList g)" for k
  proof -
    from k len have "k < length (zip [n..<n'] (scoord_items items))"
      by (simp add: n')
    from list_all2_nthD [OF all this]
    have "?R (zip [n..<n'] (scoord_items items) ! k) (getList g ! k)" .
    moreover from k len have "zip [n..<n'] (scoord_items items) ! k = (n + k, scoord_items items ! k)"
      by (simp add: n')
    ultimately obtain subItems where
      sub: "contentSequence (scoord_items items ! k) = Some subItems"
      and a: "create_subItems (initial_annotation env (n + k) (scoord_items items ! k)) subItems =
                Some (getList g ! k)"
      by auto
    from create_subItems_Some [OF a] sub show ?thesis
      by (simp add: initial_annotation_def cong: option.case_cong)
  qed
  with items len show "\<exists>items. contentSequence (getSRContent env dataElements) = Some items \<and>
        length (getList g) = length (scoord_items items) \<and>
        (\<forall>k < length (getList g). \<exists>subItems.
           contentSequence (scoord_items items ! k) = Some subItems \<and>
           mathShape (getList g ! k) =
             getShapeFromScoord env (sr_value (scoord_items items ! k)) \<and>
           id' (getList g ! k) =
             (case last_where uidref_hasProperties subItems of
                None \<Rightarrow> JString (guid env (n + k)) | Some s \<Rightarrow> sr_value s) \<and>
           textExpr (getList g ! k) =
             (case last_where text_hasProperties subItems of
                None \<Rightarrow> JString [] | Some s \<Rightarrow> sr_value s) \<and>
           Some (referenceSopUID (getList g ! k)) =
             (case last_where image_selectedFrom subItems of
                None \<Rightarrow> Some JUndefined | Some s \<Rightarrow> referencedSOPInstanceUID_of s))"
    by blast
next
  assume "map node_fields subItems = map node_fields subItems'"
  then show "create_subItems a subItems = create_subItems a subItems'"
    by (rule create_subItems_fields)
next
  show "(create env n dataElements \<noteq> None) =
     ((case contentSequence (getSRContent env dataElements) of
         None \<Rightarrow> False
       | Some items \<Rightarrow> list_all scoord_readable (scoord_items items)) \<and>
      first_value (js_get dataElements ''00080060'') \<noteq> None \<and>
      series_readable dataElements \<and>
      first_value (js_get dataElements ''0020000D'') \<noteq> None)"
    by (rule create_returns)
qed

text \<open>
  The sample tree: the second tracking identifier wins over the first, the identifier
  nested in a container and the UID reference under another relationship are not
  seen, and the scoord child without children gets the generated id, the empty text
  and no referenceSopUID.
\<close>

theorem create_annotation_fields_witness:
  "create (sample_modules sample_root) 0 sample_dataElements = Some (sample_created, 2) \<and>
   map id' (getList sample_created) = [JString ''second-id'', JString ''gg''] \<and>
   map textExpr (getList sample_created) = [JString ''lesion'', JString []] \<and>
   map referenceSopUID (getList sample_created) = [JString ''1.2.840.1'', JUndefined] \<and>
   (\<exists>items. contentSequence (getSRContent (sample_modules sample_root) sample_dataElements) =
        Some items \<and>
      length (getList sample_created) = length (scoord_items items))"
proof -
  from create_annotation_fields [of "sample_modules sample_root" 0 sample_dataElements
      sample_created 2] sample_create
  have "\<exists>items. contentSequence (getSRContent (sample_modules sample_root) sample_dataElements) =
        Some items \<and>
      length (getList sample_created) = length (scoord_items items)"
    by blast
  with sample_create show ?thesis
    by (simp add: sample_created_def getList_def)
qed

subsection \<open>C4\<close>



subsection \<open>C5\<close>

text \<open>
  Claim C5 as stated fails in two ways. On elements whose 00081115 is present with an
  empty value array, both required elements are there and no first item holds a
  sub-element 0020000E, yet the sequence is not silently left out: reading
  \<^verbatim>\<open>element.value[0]\<close> gives undefined and \<^verbatim>\<open>create\<close> throws, where the same input
  without that element is accepted. And with both required elements present no
  metadata is set when the content tree cannot be read: on a root without a content
  sequence \<^verbatim>\<open>create\<close> throws.
\<close>

theorem create_metadata_counterexample:
  "js_get sample_empty_series ''00080060'' = DataElement [JString ''MR''] \<and>
   js_get sample_empty_series ''0020000D'' = DataElement [JString ''1.2.3''] \<and>
   js_get sample_empty_series ''00081115'' = DataElement [] \<and>
   create (sample_modules sample_root) 0 sample_required =
     Some (\<lparr>group_list = getList sample_created,
            group_meta = [''Modality'' \<mapsto> JString ''MR'', ''StudyInstanceUID'' \<mapsto> JString ''1.2.3'']\<rparr>,
           2) \<and>
   create (sample_modules sample_root) 0 sample_empty_series = None \<and>
   js_get sample_required ''00080060'' = DataElement [JString ''MR''] \<and>
   js_get sample_required ''0020000D'' = DataElement [JString ''1.2.3''] \<and>
   create (sample_modules (new_DicomSRContent ValueTypes_container)) 0 sample_required = None"
  by (simp add: create_def sample_defs first_value_def js_get_def array_first_def
      new_Annotation_def AnnotationGroup_def setMeta_def getList_def new_DicomSRContent_def)

text \<open>
  Claim C5, as amended. \<^verbatim>\<open>create\<close> throws whenever the element 00080060 or 0020000D
  is missing. It returns exactly when the content tree can be read (the root has a
  content sequence, every scoord child of it has one, and every image/selectedFrom
  child of those has a SOP reference to read), the elements 00080060 and 0020000D have
  a first value to read, and the element 00081115 is missing or has a first item that
  has no sub-element 0020000E or one with a first value to read; in every other case
  it throws, so also when 00081115 is present and the sub-element cannot be read from
  a first item. Whenever it returns, the Modality and the StudyInstanceUID of the
  group are the first values of 00080060 and 0020000D, and the group has a
  ReferencedSeriesSequence exactly when the first item of 00081115 holds a
  sub-element 0020000E; it is then
  \<^verbatim>\<open>{value: [{SeriesInstanceUID: uid}]}\<close> for the first value \<^verbatim>\<open>uid\<close> of the sub-element.
\<close>

theorem create_metadata:
  "(js_get dataElements ''00080060'' = JUndefined \<or>
    js_get dataElements ''0020000D'' = JUndefined \<longrightarrow>
      create env n dataElements = None) \<and>
   ((create env n dataElements \<noteq> None) =
      ((case contentSequence (getSRContent env dataElements) of
          None \<Rightarrow> False
        | Some items \<Rightarrow> list_all scoord_readable (scoord_items items)) \<and>
       first_value (js_get dataElements ''00080060'') \<noteq> None \<and>
       first_value (js_get dataElements ''0020000D'') \<noteq> None \<and>
       (js_get dataElements ''00081115'' = JUndefined \<or>
        (\<exists>seriesElement. seriesElement_of dataElements = Some seriesElement \<and>
           (seriesElement = JUndefined \<or> first_value seriesElement \<noteq> None))))) \<and>
   (js_get dataElements ''00081115'' \<noteq> JUndefined \<and> seriesElement_of dataElements = None \<longrightarrow>
      create env n dataElements = None) \<and>
   (\<forall>g n'. create env n dataElements = Some (g, n') \<longrightarrow>
      group_meta g ''Modality'' = first_value (js_get dataElements ''00080060'') \<and>
      group_meta g ''StudyInstanceUID'' = first_value (js_get dataElements ''0020000D'') \<and>
      (group_meta g ''ReferencedSeriesSequence'' \<noteq> None \<longleftrightarrow>
         js_get dataElements ''00081115'' \<noteq> JUndefined \<and>
         (\<exists>seriesElement. seriesElement_of dataElements = Some seriesElement \<and>
            seriesElement \<noteq> JUndefined)) \<and>
      (\<forall>seriesElement. seriesElement_of dataElements = Some seriesElement \<and>
          seriesElement \<noteq> JUndefined \<longrightarrow>
         (\<exists>uid. first_value seriesElement = Some uid \<and>
            group_meta g ''ReferencedSeriesSequence'' =
              Some (JObject [(''value'', JArray [JObject [(''SeriesInstanceUID'', uid)]])]))))"
proof -
  have missing: "js_get dataElements ''00080060'' = JUndefined \<or>
    js_get dataElements ''0020000D'' = JUndefined \<longrightarrow> create env n dataElements = None"
    by (intro impI) (rule create_None)
  have returns: "(create env n dataElements \<noteq> None) =
      ((case contentSequence (getSRContent env dataElements) of
          None \<Rightarrow> False
        | Some items \<Rightarrow> list_all scoord_readable (scoord_items items)) \<and>
       first_value (js_get dataElements ''00080060'') \<noteq> None \<and>
       first_value (js_get dataElements ''0020000D'') \<noteq> None \<and>
       (js_get dataElements ''00081115'' = JUndefined \<or>
        (\<exists>seriesElement. seriesElement_of dataElements = Some seriesElement \<and>
           (seriesElement = JUndefined \<or> first_value seriesElement \<noteq> None))))"
    unfolding create_returns series_readable_seriesElement by blast
  have unreadable: "js_get dataElements ''00081115'' \<noteq> JUndefined \<and>
      seriesElement_of dataElements = None \<longrightarrow> create env n dataElements = None"
  proof (intro impI, elim conjE)
    assume "js_get dataElements ''00081115'' \<noteq> JUndefined"
      and "seriesElement_of dataElements = None"
    then have "\<not> series_readable dataElements"
      by (simp add: series_readable_seriesElement)
    with create_returns [of env n dataElements] show "create env n dataElements = None"
      by blast
  qed
  have meta: "group_meta g ''Modality'' = first_value (js_get dataElements ''00080060'') \<and>
      group_meta g ''StudyInstanceUID'' = first_value (js_get dataElements ''0020000D'') \<and>
      (group_meta g ''ReferencedSeriesSequence'' \<noteq> None \<longleftrightarrow>
         js_get dataElements ''00081115'' \<noteq> JUndefined \<and>
         (\<exists>seriesElement. seriesElement_of dataElements = Some seriesElement \<and>
            seriesElement \<noteq> JUndefined)) \<and>
      (\<forall>seriesElement. seriesElement_of dataElements = Some seriesElement \<and>
          seriesElement \<noteq> JUndefined \<longrightarrow>
         (\<exists>uid. first_value seriesElement = Some uid \<and>
            group_meta g ''ReferencedSeriesSequence'' =
              Some (JObject [(''value'', JArray [JObject [(''SeriesInstanceUID'', uid)]])])))"
    if created: "create env n dataElements = Some (g, n')" for g n'
  proof -
    note m = create_meta [OF created]
    from created have "create env n dataElements \<noteq> None"
      by simp
    then have readable: "series_readable dataElements"
      unfolding create_returns by blast
    have absent: "seriesElement_of dataElements = None"
      if "js_get dataElements ''00081115'' = JUndefined"
      using that by (simp add: seriesElement_of_def)
    have set_iff: "group_meta g ''ReferencedSeriesSequence'' \<noteq> None \<longleftrightarrow>
         js_get dataElements ''00081115'' \<noteq> JUndefined \<and>
         (\<exists>seriesElement. seriesElement_of dataElements = Some seriesElement \<and>
            seriesElement \<noteq> JUndefined)"
      using readable absent unfolding m(3) series_readable_seriesElement
      by (auto split: option.splits)
    have "value": "\<exists>uid. first_value seriesElement = Some uid \<and>
            group_meta g ''ReferencedSeriesSequence'' =
              Some (JObject [(''value'', JArray [JObject [(''SeriesInstanceUID'', uid)]])])"
      if "seriesElement_of dataElements = Some seriesElement" and "seriesElement \<noteq> JUndefined"
      for seriesElement
      using readable that absent unfolding m(3) series_readable_seriesElement
      by auto
    from m(1) m(2) set_iff "value" show ?thesis
      by blast
  qed
  have created: "\<forall>g n'. create env n dataElements = Some (g, n') \<longrightarrow>
      group_meta g ''Modality'' = first_value (js_get dataElements ''00080060'') \<and>
      group_meta g ''StudyInstanceUID'' = first_value (js_get dataElements ''0020000D'') \<and>
      (group_meta g ''ReferencedSeriesSequence'' \<noteq> None \<longleftrightarrow>
         js_get dataElements ''00081115'' \<noteq> JUndefined \<and>
         (\<exists>seriesElement. seriesElement_of dataElements = Some seriesElement \<and>
            seriesElement \<noteq> JUndefined)) \<and>
      (\<forall>seriesElement. seriesElement_of dataElements = Some seriesElement \<and>
          seriesElement \<noteq> JUndefined \<longrightarrow>
         (\<exists>uid. first_value seriesElement = Some uid \<and>
            group_meta g ''ReferencedSeriesSequence'' =
              Some (JObject [(''value'', JArray [JObject [(''SeriesInstanceUID'', uid)]])])))"
    by (intro allI impI) (rule meta)
  from missing returns unreadable created show ?thesis
    by (intro conjI)
qed

text \<open>
  No elements; the two required elements only; the same with an element 00081115
  without items; and the sample elements with a series.
\<close>

theorem create_metadata_witness:
  "(case contentSequence (getSRContent (sample_modules sample_root) sample_dataElements) of
      None \<Rightarrow> False
    | Some items \<Rightarrow> list_all scoord_readable (scoord_items items)) \<and>
   first_value (js_get sample_dataElements ''00080060'') \<noteq> None \<and>
   first_value (js_get sample_dataElements ''0020000D'') \<noteq> None \<and>
   create (sample_modules sample_root) 0 sample_dataElements \<noteq> None \<and>
   js_get [] ''00080060'' = JUndefined \<and>
   create (sample_modules sample_root) 0 [] = None \<and>
   js_get sample_empty_series ''00081115'' \<noteq> JUndefined \<and>
   seriesElement_of sample_empty_series = None \<and>
   create (sample_modules sample_root) 0 sample_empty_series = None \<and>
   create (sample_modules sample_root) 0 sample_required =
     Some (\<lparr>group_list = getList sample_created,
            group_meta = [''Modality'' \<mapsto> JString ''MR'', ''StudyInstanceUID'' \<mapsto> JString ''1.2.3'']\<rparr>,
           2) \<and>
   first_value (js_get sample_required ''00080060'') = Some (JString ''MR'') \<and>
   seriesElement_of sample_required = None \<and>
   create (sample_modules sample_root) 0 sample_dataElements = Some (sample_created, 2) \<and>
   seriesElement_of sample_dataElements = Some (DataElement [JString ''1.2.3.4'']) \<and>
   group_meta sample_created ''Modality'' = Some (JString ''MR'') \<and>
   group_meta sample_created ''StudyInstanceUID'' = Some (JString ''1.2.3'') \<and>
   group_meta sample_created ''ReferencedSeriesSequence'' =
     Some (JObject [(''value'', JArray [JObject [(''SeriesInstanceUID'', JString ''1.2.3.4'')]])])"
proof -
  let ?env = "sample_modules sample_root"
  have missing: "js_get [] ''00080060'' = JUndefined"
    by (simp add: js_get_def)
  from create_metadata [of "[]" ?env 0] missing
  have 1: "create ?env 0 [] = None"
    by blast
  have empty: "js_get sample_empty_series ''00081115'' \<noteq> JUndefined"
    "seriesElement_of sample_empty_series = None"
    by (simp_all add: seriesElement_of_def first_value_def sample_defs js_get_def array_first_def)
  from create_metadata [of sample_empty_series ?env 0] empty
  have 2: "create ?env 0 sample_empty_series = None"
    by blast
  have required: "create ?env 0 sample_required =
     Some (\<lparr>group_list = getList sample_created,
            group_meta = [''Modality'' \<mapsto> JString ''MR'', ''StudyInstanceUID'' \<mapsto> JString ''1.2.3'']\<rparr>,
           2)"
    by (simp add: create_def sample_defs first_value_def js_get_def array_first_def
      new_Annotation_def AnnotationGroup_def setMeta_def getList_def)
  have required_values: "first_value (js_get sample_required ''00080060'') = Some (JString ''MR'')"
    "seriesElement_of sample_required = None"
    by (simp_all add: seriesElement_of_def first_value_def sample_defs js_get_def array_first_def)
  have elements: "first_value (js_get sample_dataElements ''00080060'') = Some (JString ''MR'')"
    "first_value (js_get sample_dataElements ''0020000D'') = Some (JString ''1.2.3'')"
    "seriesElement_of sample_dataElements = Some (DataElement [JString ''1.2.3.4''])"
    "first_value (DataElement [JString ''1.2.3.4'']) = Some (JString ''1.2.3.4'')"
    "DataElement [JString ''1.2.3.4''] \<noteq> JUndefined"
    by (simp_all add: seriesElement_of_def first_value_def sample_defs js_get_def array_first_def)
  from create_metadata [of sample_dataElements ?env 0] sample_create
  have meta: "group_meta sample_created ''Modality'' =
        first_value (js_get sample_dataElements ''00080060'')"
    "group_meta sample_created ''StudyInstanceUID'' =
        first_value (js_get sample_dataElements ''0020000D'')"
    "\<forall>seriesElement. seriesElement_of sample_dataElements = Some seriesElement \<and>
          seriesElement \<noteq> JUndefined \<longrightarrow>
         (\<exists>uid. first_value seriesElement = Some uid \<and>
            group_meta sample_created ''ReferencedSeriesSequence'' =
              Some (JObject [(''value'', JArray [JObject [(''SeriesInstanceUID'', uid)]])]))"
    by blast+
  from meta(3) elements(3,4,5)
  have series: "group_meta sample_created ''ReferencedSeriesSequence'' =
     Some (JObject [(''value'', JArray [JObject [(''SeriesInstanceUID'', JString ''1.2.3.4'')]])])"
    by auto
  have tree: "case contentSequence (getSRContent ?env sample_dataElements) of
      None \<Rightarrow> False
    | Some items \<Rightarrow> list_all scoord_readable (scoord_items items)"
    by (simp add: sample_defs scoord_items_def scoord_readable_def image_readable_def
        image_selectedFrom_def referencedSOPInstanceUID_of_def js_get_def)
  have readable: "first_value (js_get sample_dataElements ''00080060'') \<noteq> None"
    "first_value (js_get sample_dataElements ''0020000D'') \<noteq> None"
    "js_get sample_dataElements ''00081115'' = JUndefined \<or>
     (\<exists>seriesElement. seriesElement_of sample_dataElements = Some seriesElement \<and>
        (seriesElement = JUndefined \<or> first_value seriesElement \<noteq> None))"
    using elements by simp_all
  from create_metadata [of sample_dataElements ?env 0] tree readable
  have returns: "create ?env 0 sample_dataElements \<noteq> None"
    by blast
  from tree readable(1,2) returns missing 1 empty 2 required required_values sample_create
    elements(3) meta(1) [unfolded elements(1)] meta(2) [unfolded elements(2)] series
  show ?thesis
    by (intro conjI)
qed

subsection \<open>C6\<close>

text \<open>
  Claim C6. For a group without annotations the tags of \<^verbatim>\<open>toDicom\<close> are exactly the
  tags assigned before the content tree: the writer is not called, and the element
  builder gets these thirteen tags, among them the metadata copied from the group. For
  a group with annotations the tags are these, spread with what the writer makes of one
  root: a container with the measurement-group code whose content sequence is the list
  of the scoord nodes of the annotations.
\<close>

theorem toDicom_empty_or_wrapped:
  "(getList G = [] \<longrightarrow>
      fst (toDicom_tags env now G None) = toDicom_fixed env now G \<and>
      fst (toDicom env now G None) = getElementsFromJSONTags env (toDicom_fixed env now G)) \<and>
   Object_keys (toDicom_fixed env now G) =
     [''TransferSyntaxUID'', ''SOPClassUID'', ''SOPInstanceUID'', ''MediaStorageSOPClassUID'',
      ''MediaStorageSOPInstanceUID'', ''Modality'', ''StudyInstanceUID'',
      ''ReferencedSeriesSequence'', ''SeriesInstanceUID'', ''CompletionFlag'',
      ''VerificationFlag'', ''ContentDate'', ''ContentTime''] \<and>
   js_get (toDicom_fixed env now G) ''Modality'' = getMeta G ''Modality'' \<and>
   js_get (toDicom_fixed env now G) ''StudyInstanceUID'' = getMeta G ''StudyInstanceUID'' \<and>
   js_get (toDicom_fixed env now G) ''ReferencedSeriesSequence'' =
     getMeta G ''ReferencedSeriesSequence'' \<and>
   (getList G \<noteq> [] \<longrightarrow>
      (\<exists>root. fst (toDicom_tags env now G None) =
                spread (toDicom_fixed env now G) (getDicomSRContentItem env root) \<and>
              valueType root = ValueTypes_container \<and>
              conceptNameCode root = Some (getMeasurementGroupCode env) \<and>
              contentSequence root = Some (map (srScoord env) (getList G)) \<and>
              scoord_items (map (srScoord env) (getList G)) = map (srScoord env) (getList G)))"
proof (intro conjI impI)
  assume "getList G = []"
  then show "fst (toDicom_tags env now G None) = toDicom_fixed env now G"
    by (simp add: toDicom_tags_None)
  then show "fst (toDicom env now G None) = getElementsFromJSONTags env (toDicom_fixed env now G)"
    by (simp add: toDicom_def split_def)
next
  show "Object_keys (toDicom_fixed env now G) =
     [''TransferSyntaxUID'', ''SOPClassUID'', ''SOPInstanceUID'', ''MediaStorageSOPClassUID'',
      ''MediaStorageSOPInstanceUID'', ''Modality'', ''StudyInstanceUID'',
      ''ReferencedSeriesSequence'', ''SeriesInstanceUID'', ''CompletionFlag'',
      ''VerificationFlag'', ''ContentDate'', ''ContentTime'']"
    by (simp add: toDicom_fixed_def Object_keys_def)
next
  show "js_get (toDicom_fixed env now G) ''Modality'' = getMeta G ''Modality''"
    and "js_get (toDicom_fixed env now G) ''StudyInstanceUID'' = getMeta G ''StudyInstanceUID''"
    and "js_get (toDicom_fixed env now G) ''ReferencedSeriesSequence'' =
     getMeta G ''ReferencedSeriesSequence''"
    by (simp_all add: toDicom_fixed_def js_get_def)
next
  assume "getList G \<noteq> []"
  then have "fst (toDicom_tags env now G None) =
      spread (toDicom_fixed env now G)
        (getDicomSRContentItem env (toDicom_srContent env (map (srScoord env) (getList G))))"
    by (simp add: toDicom_tags_None)
  moreover have "scoord_items (map (srScoord env) (getList G)) = map (srScoord env) (getList G)"
    by (simp add: scoord_items_def srScoord_def)
  ultimately show "\<exists>root. fst (toDicom_tags env now G None) =
                spread (toDicom_fixed env now G) (getDicomSRContentItem env root) \<and>
              valueType root = ValueTypes_container \<and>
              conceptNameCode root = Some (getMeasurementGroupCode env) \<and>
              contentSequence root = Some (map (srScoord env) (getList G)) \<and>
              scoord_items (map (srScoord env) (getList G)) = map (srScoord env) (getList G)"
    by (intro exI [of _ "toDicom_srContent env (map (srScoord env) (getList G))"])
       (simp add: toDicom_srContent_def)
qed

text \<open>The empty group and the sample group.\<close>

theorem toDicom_empty_or_wrapped_witness:
  "getList (AnnotationGroup []) = [] \<and>
   map fst (fst (toDicom_tags (sample_modules sample_root) 0 (AnnotationGroup []) None)) =
     [''TransferSyntaxUID'', ''SOPClassUID'', ''SOPInstanceUID'', ''MediaStorageSOPClassUID'',
      ''MediaStorageSOPInstanceUID'', ''Modality'', ''StudyInstanceUID'',
      ''ReferencedSeriesSequence'', ''SeriesInstanceUID'', ''CompletionFlag'',
      ''VerificationFlag'', ''ContentDate'', ''ContentTime''] \<and>
   getList sample_group \<noteq> [] \<and>
   (\<exists>root. fst (toDicom_tags (sample_modules sample_root) 0 sample_group None) =
        spread (toDicom_fixed (sample_modules sample_root) 0 sample_group)
          (getDicomSRContentItem (sample_modules sample_root) root) \<and>
      valueType root = ValueTypes_container \<and>
      conceptNameCode root = Some \<lparr>code_value = ''125007'', code_meaning = ''Measurement Group''\<rparr> \<and>
      map (valueType) (case contentSequence root of None \<Rightarrow> [] | Some items \<Rightarrow> items) =
        [ValueTypes_scoord, ValueTypes_scoord, ValueTypes_scoord])"
proof -
  let ?env = "sample_modules sample_root"
  have empty: "getList (AnnotationGroup []) = []"
    by (simp add: getList_def AnnotationGroup_def)
  have list: "getList sample_group \<noteq> []"
    by (simp add: getList_def sample_group_def)
  from toDicom_empty_or_wrapped [of "AnnotationGroup []" ?env 0] empty
  have "fst (toDicom_tags ?env 0 (AnnotationGroup []) None) =
      toDicom_fixed ?env 0 (AnnotationGroup [])"
    by blast
  then have 1: "map fst (fst (toDicom_tags ?env 0 (AnnotationGroup []) None)) =
     [''TransferSyntaxUID'', ''SOPClassUID'', ''SOPInstanceUID'', ''MediaStorageSOPClassUID'',
      ''MediaStorageSOPInstanceUID'', ''Modality'', ''StudyInstanceUID'',
      ''ReferencedSeriesSequence'', ''SeriesInstanceUID'', ''CompletionFlag'',
      ''VerificationFlag'', ''ContentDate'', ''ContentTime'']"
    by (simp add: toDicom_fixed_def)
  from toDicom_empty_or_wrapped [of sample_group ?env 0] list
  obtain root where root:
    "fst (toDicom_tags ?env 0 sample_group None) =
        spread (toDicom_fixed ?env 0 sample_group) (getDicomSRContentItem ?env root)"
    "valueType root = ValueTypes_container"
    "conceptNameCode root = Some (getMeasurementGroupCode ?env)"
    "contentSequence root = Some (map (srScoord ?env) (getList sample_group))"
    by blast
  have "map valueType (map (srScoord ?env) (getList sample_group)) =
      [ValueTypes_scoord, ValueTypes_scoord, ValueTypes_scoord]"
    by (simp add: srScoord_def getList_def sample_group_def)
  with root have "fst (toDicom_tags ?env 0 sample_group None) =
        spread (toDicom_fixed ?env 0 sample_group) (getDicomSRContentItem ?env root) \<and>
      valueType root = ValueTypes_container \<and>
      conceptNameCode root = Some \<lparr>code_value = ''125007'', code_meaning = ''Measurement Group''\<rparr> \<and>
      map (valueType) (case contentSequence root of None \<Rightarrow> [] | Some items \<Rightarrow> items) =
        [ValueTypes_scoord, ValueTypes_scoord, ValueTypes_scoord]"
    by (simp add: sample_modules_def)
  then have wrapped: "\<exists>root. fst (toDicom_tags ?env 0 sample_group None) =
        spread (toDicom_fixed ?env 0 sample_group) (getDicomSRContentItem ?env root) \<and>
      valueType root = ValueTypes_container \<and>
      conceptNameCode root = Some \<lparr>code_value = ''125007'', code_meaning = ''Measurement Group''\<rparr> \<and>
      map (valueType) (case contentSequence root of None \<Rightarrow> [] | Some items \<Rightarrow> items) =
        [ValueTypes_scoord, ValueTypes_scoord, ValueTypes_scoord]"
    by (rule exI)
  from empty 1 list wrapped show ?thesis
    by (intro conjI)
qed

subsection \<open>C7\<close>

text \<open>
  Claim C7. For every group \<^verbatim>\<open>toDicom\<close> assigns the same constants: the transfer
  syntax Explicit VR Little Endian, the SOP class Basic Text SR Storage, the placeholder
  SOP instance UID, the flags \<^verbatim>\<open>PARTIAL\<close> and \<^verbatim>\<open>UNVERIFIED\<close>, and the placeholder
  SeriesInstanceUID \<^verbatim>\<open>1.2.3.4.5.6\<close>, whatever the group holds. An assigned tag is in the
  final tag object with the value assigned, unless the writer or the extra tags give
  the same key.
\<close>

theorem toDicom_constants:
  "js_get (toDicom_fixed env now G) ''TransferSyntaxUID'' = JString ''1.2.840.10008.1.2.1'' \<and>
   js_get (toDicom_fixed env now G) ''SOPClassUID'' = JString ''1.2.840.10008.5.1.4.1.1.88.11'' \<and>
   js_get (toDicom_fixed env now G) ''SOPInstanceUID'' =
     JString ''1.2.840.10008.5.1.4.1.1.88.11.0'' \<and>
   js_get (toDicom_fixed env now G) ''CompletionFlag'' = JString ''PARTIAL'' \<and>
   js_get (toDicom_fixed env now G) ''VerificationFlag'' = JString ''UNVERIFIED'' \<and>
   js_get (toDicom_fixed env now G) ''SeriesInstanceUID'' = JString ''1.2.3.4.5.6'' \<and>
   ((getList G = [] \<or>
     k \<notin> set (Object_keys (getDicomSRContentItem env
            (toDicom_srContent env (map (srScoord env) (getList G)))))) \<and>
    (case extraTags of None \<Rightarrow> True | Some extra \<Rightarrow> k \<notin> set (Object_keys extra)) \<longrightarrow>
      js_get (fst (toDicom_tags env now G extraTags)) k = js_get (toDicom_fixed env now G) k)"
proof (intro conjI impI; (elim conjE)?)
  show "js_get (toDicom_fixed env now G) ''TransferSyntaxUID'' = JString ''1.2.840.10008.1.2.1''"
    and "js_get (toDicom_fixed env now G) ''SOPClassUID'' = JString ''1.2.840.10008.5.1.4.1.1.88.11''"
    and "js_get (toDicom_fixed env now G) ''SOPInstanceUID'' =
     JString ''1.2.840.10008.5.1.4.1.1.88.11.0''"
    and "js_get (toDicom_fixed env now G) ''CompletionFlag'' = JString ''PARTIAL''"
    and "js_get (toDicom_fixed env now G) ''VerificationFlag'' = JString ''UNVERIFIED''"
    and "js_get (toDicom_fixed env now G) ''SeriesInstanceUID'' = JString ''1.2.3.4.5.6''"
    by (simp_all add: toDicom_fixed_def js_get_def)
next
  assume writer: "getList G = [] \<or>
     k \<notin> set (Object_keys (getDicomSRContentItem env
            (toDicom_srContent env (map (srScoord env) (getList G)))))"
    and extra: "case extraTags of None \<Rightarrow> True | Some extra \<Rightarrow> k \<notin> set (Object_keys extra)"
  have generated: "js_get (fst (toDicom_tags env now G None)) k = js_get (toDicom_fixed env now G) k"
    using writer by (rule js_get_generated)
  show "js_get (fst (toDicom_tags env now G extraTags)) k = js_get (toDicom_fixed env now G) k"
  proof (cases extraTags)
    case None
    with generated show ?thesis by simp
  next
    case (Some x)
    with extra generated show ?thesis
      by (simp add: js_get_toDicom_tags_other)
  qed
qed

text \<open>Two of the constants in the final tags of the sample group, with an extra Modality.\<close>

theorem toDicom_constants_witness:
  "getList sample_group \<noteq> [] \<and>
   js_get (fst (toDicom_tags (sample_modules sample_root) 0 sample_group
                 (Some [(''Modality'', JString ''CT'')]))) ''SeriesInstanceUID'' =
     JString ''1.2.3.4.5.6'' \<and>
   js_get (fst (toDicom_tags (sample_modules sample_root) 0 sample_group
                 (Some [(''Modality'', JString ''CT'')]))) ''CompletionFlag'' =
     JString ''PARTIAL''"
proof -
  let ?env = "sample_modules sample_root"
  let ?extra = "Some [(''Modality'', JString ''CT'')]"
  have list: "getList sample_group \<noteq> []"
    by (simp add: getList_def sample_group_def)
  have writer: "getList sample_group = [] \<or>
     k \<notin> set (Object_keys (getDicomSRContentItem ?env
            (toDicom_srContent ?env (map (srScoord ?env) (getList sample_group)))))"
    if "k = ''SeriesInstanceUID'' \<or> k = ''CompletionFlag''" for k
    using that by (auto simp: sample_writer_keys)
  have extra: "case ?extra of None \<Rightarrow> True | Some extra \<Rightarrow> k \<notin> set (Object_keys extra)"
    if "k = ''SeriesInstanceUID'' \<or> k = ''CompletionFlag''" for k
    using that by (auto simp: Object_keys_def)
  note constants = toDicom_constants [of ?env 0 sample_group _ ?extra]
  from constants [of "''SeriesInstanceUID''"] writer extra
  have 1: "js_get (fst (toDicom_tags ?env 0 sample_group ?extra)) ''SeriesInstanceUID'' =
      JString ''1.2.3.4.5.6''"
    by simp
  from constants [of "''CompletionFlag''"] writer extra
  have 2: "js_get (fst (toDicom_tags ?env 0 sample_group ?extra)) ''CompletionFlag'' =
      JString ''PARTIAL''"
    by simp
  from list 1 2 show ?thesis
    by (intro conjI)
qed

subsection \<open>C8\<close>

text \<open>
  Claim C8. The node that \<^verbatim>\<open>toDicom\<close> builds for an annotation is a scoord node with
  the relationship contains, the image-region code and the encoded shape; its content
  sequence is, in this order, an image/selectedFrom node with the source-image code
  whose referenced-SOP-instance field is the referenceSopUID, a uidref/hasProperties
  node with the tracking-identifier code whose payload is the id, and a
  text/hasProperties node with the short-label code whose payload is the text. These
  nodes, in list order, are the content sequence of the root given to the writer.
\<close>

theorem srScoord_structure:
  "valueType (srScoord env a) = ValueTypes_scoord \<and>
   relationshipType (srScoord env a) = Some RelationshipTypes_contains \<and>
   conceptNameCode (srScoord env a) = Some (getImageRegionCode env) \<and>
   sr_value (srScoord env a) = getScoordFromShape env (mathShape a) \<and>
   (\<exists>srImage srUid shortLabel.
      contentSequence (srScoord env a) = Some [srImage, srUid, shortLabel] \<and>
      image_selectedFrom srImage \<and>
      conceptNameCode srImage = Some (getSourceImageCode env) \<and>
      referencedSOPInstanceUID_of srImage = Some (referenceSopUID a) \<and>
      uidref_hasProperties srUid \<and>
      conceptNameCode srUid = Some (getTrackingIdentifierCode env) \<and>
      sr_value srUid = id' a \<and>
      text_hasProperties shortLabel \<and>
      conceptNameCode shortLabel = Some (getShortLabelCode env) \<and>
      sr_value shortLabel = textExpr a) \<and>
   (getList G \<noteq> [] \<longrightarrow>
      fst (toDicom_tags env now G None) =
        spread (toDicom_fixed env now G)
          (getDicomSRContentItem env
             (DicomSRContent ValueTypes_container None (Some (getMeasurementGroupCode env))
                JUndefined (Some (map (srScoord env) (getList G))))))"
  by (simp add: srScoord_def image_selectedFrom_def uidref_hasProperties_def
      text_hasProperties_def referencedSOPInstanceUID_of_def js_get_def toDicom_tags_None
      toDicom_srContent_def)

text \<open>The node of annotation \<open>A\<close> of the sample group.\<close>

theorem srScoord_structure_witness:
  "contentSequence (srScoord (sample_modules sample_root) (sample_annotation ''A'' ''first'')) =
     Some [DicomSRContent ValueTypes_image (Some RelationshipTypes_selectedFrom)
             (Some \<lparr>code_value = ''260753009'', code_meaning = ''Source''\<rparr>)
             (JObject [(''referencedSOPSequence'',
                JObject [(''referencedSOPClassUID'', JString []),
                         (''referencedSOPInstanceUID'', JString ''1.2.840.1'')])]) None,
           DicomSRContent ValueTypes_uidref (Some RelationshipTypes_hasProperties)
             (Some \<lparr>code_value = ''112039'', code_meaning = ''Tracking Identifier''\<rparr>)
             (JString ''A'') None,
           DicomSRContent ValueTypes_text (Some RelationshipTypes_hasProperties)
             (Some \<lparr>code_value = ''125309'', code_meaning = ''Short label''\<rparr>)
             (JString ''first'') None] \<and>
   valueType (srScoord (sample_modules sample_root) (sample_annotation ''A'' ''first'')) =
     ValueTypes_scoord \<and>
   getList sample_group \<noteq> [] \<and>
   fst (toDicom_tags (sample_modules sample_root) 0 sample_group None) =
     spread (toDicom_fixed (sample_modules sample_root) 0 sample_group)
       (getDicomSRContentItem (sample_modules sample_root)
          (DicomSRContent ValueTypes_container None
             (Some (getMeasurementGroupCode (sample_modules sample_root)))
             JUndefined (Some (map (srScoord (sample_modules sample_root)) (getList sample_group)))))"
proof -
  let ?env = "sample_modules sample_root"
  have list: "getList sample_group \<noteq> []"
    by (simp add: getList_def sample_group_def)
  note node = srScoord_structure [of ?env "sample_annotation ''A'' ''first''" sample_group 0]
  from node have 1: "valueType (srScoord ?env (sample_annotation ''A'' ''first'')) =
      ValueTypes_scoord"
    by blast
  from node list have 2: "fst (toDicom_tags ?env 0 sample_group None) =
     spread (toDicom_fixed ?env 0 sample_group)
       (getDicomSRContentItem ?env
          (DicomSRContent ValueTypes_container None (Some (getMeasurementGroupCode ?env))
             JUndefined (Some (map (srScoord ?env) (getList sample_group)))))"
    by blast
  have 3: "contentSequence (srScoord ?env (sample_annotation ''A'' ''first'')) =
     Some [DicomSRContent ValueTypes_image (Some RelationshipTypes_selectedFrom)
             (Some \<lparr>code_value = ''260753009'', code_meaning = ''Source''\<rparr>)
             (JObject [(''referencedSOPSequence'',
                JObject [(''referencedSOPClassUID'', JString []),
                         (''referencedSOPInstanceUID'', JString ''1.2.840.1'')])]) None,
           DicomSRContent ValueTypes_uidref (Some RelationshipTypes_hasProperties)
             (Some \<lparr>code_value = ''112039'', code_meaning = ''Tracking Identifier''\<rparr>)
             (JString ''A'') None,
           DicomSRContent ValueTypes_text (Some RelationshipTypes_hasProperties)
             (Some \<lparr>code_value = ''125309'', code_meaning = ''Short label''\<rparr>)
             (JString ''first'') None]"
    by (simp add: srScoord_def sample_modules_def sample_annotation_def)
  from 3 1 list 2 show ?thesis
    by (intro conjI)
qed

subsection \<open>C9\<close>

text \<open>
  Claim C9 as stated fails in three ways. On a group without Modality metadata,
  \<^verbatim>\<open>Modality\<close> is a generated tag, the extra tags \<^verbatim>\<open>{Modality: 'CT'}\<close> overwrite it,
  and the trace is empty. A key \<^verbatim>\<open>__proto__\<close> of the extra tags does not end up in the
  tag object: the assignment goes to the setter of \<^verbatim>\<open>Object.prototype\<close>. And the merge
  raises when the extra tags are \<^verbatim>\<open>null\<close>.
\<close>

theorem toDicom_extraTags_counterexample:
  "map_of (fst (toDicom_tags (sample_modules sample_root) 0 (AnnotationGroup []) None))
     ''Modality'' = Some JUndefined \<and>
   map_of (fst (toDicom_tags (sample_modules sample_root) 0 (AnnotationGroup [])
                 (Some [(''Modality'', JString ''CT'')]))) ''Modality'' = Some (JString ''CT'') \<and>
   snd (toDicom_tags (sample_modules sample_root) 0 (AnnotationGroup [])
          (Some [(''Modality'', JString ''CT'')])) = [] \<and>
   ''__proto__'' \<in> set (Object_keys [(''__proto__'', JString ''x'')]) \<and>
   map_of (fst (toDicom_tags (sample_modules sample_root) 0 (AnnotationGroup [])
                 (Some [(''__proto__'', JString ''x'')]))) ''__proto__'' = None \<and>
   toDicom_value (sample_modules sample_root) 0 (AnnotationGroup []) JNull = None"
  by (simp add: toDicom_value_def mergeTags_def toDicom_tags_def toDicom_fixed_def
      mergeTags_object_def Object_keys_def js_get_def reads_defined_def assign_def
      Object_prototype_names_def getList_def getMeta_def AnnotationGroup_def)

text \<open>
  Claim C9, as amended. With extra tags that are an object, the merge and \<^verbatim>\<open>toDicom\<close>
  return, and the elements are built from the merged tags. Every key of the extra tags other than
  \<^verbatim>\<open>__proto__\<close> (and \<^verbatim>\<open>__proto__\<close> too, if it is a generated tag) is in the final tag
  object with the value of the extra tags; a \<^verbatim>\<open>__proto__\<close> that is not a generated tag
  is not in the final tag object. The overwrite of a generated tag is logged
  once if the generated value is not undefined, and not at all if it is undefined.
  When the extra tags have no key \<^verbatim>\<open>__proto__\<close>, the trace is exactly one message for
  each of their keys that reads a defined value from the generated tag object, in the
  order of the keys: the generated tags with a defined value, and the names inherited
  from \<^verbatim>\<open>Object.prototype\<close>, such as \<^verbatim>\<open>constructor\<close>. With \<^verbatim>\<open>null\<close> for the extra tags
  the merge raises, and \<^verbatim>\<open>toDicom\<close> with it. In particular, for a group with Modality \<^verbatim>\<open>MR\<close> (and a writer
  that gives no Modality) the extra tags \<^verbatim>\<open>{Modality: 'CT'}\<close> give Modality \<^verbatim>\<open>CT\<close> and
  the one message \<^verbatim>\<open>Overwritting tag: Modality\<close>.
\<close>

theorem toDicom_extraTags:
  "mergeTags (fst (toDicom_tags env now G None)) (JObject extra) [] =
     Some (mergeTags_object (fst (toDicom_tags env now G None)) extra []) \<and>
   toDicom_value env now G (JObject extra) = Some (toDicom env now G (Some extra)) \<and>
   fst (toDicom env now G (Some extra)) =
     getElementsFromJSONTags env (fst (toDicom_tags env now G (Some extra))) \<and>
   snd (toDicom env now G (Some extra)) = snd (toDicom_tags env now G (Some extra)) \<and>
   (\<forall>k \<in> set (Object_keys extra).
      (k \<noteq> ''__proto__'' \<or> map_of (fst (toDicom_tags env now G None)) k \<noteq> None \<longrightarrow>
         map_of (fst (toDicom_tags env now G (Some extra))) k = Some (js_get extra k)) \<and>
      (\<forall>v. map_of (fst (toDicom_tags env now G None)) k = Some v \<longrightarrow>
         count_list (snd (toDicom_tags env now G (Some extra))) (overwrite_message k) =
           (if v \<noteq> JUndefined then 1 else 0))) \<and>
   (map_of (fst (toDicom_tags env now G None)) ''__proto__'' = None \<longrightarrow>
      map_of (fst (toDicom_tags env now G (Some extra))) ''__proto__'' = None) \<and>
   (''__proto__'' \<notin> set (Object_keys extra) \<longrightarrow>
      snd (toDicom_tags env now G (Some extra)) =
        map overwrite_message
          (filter (reads_defined (fst (toDicom_tags env now G None)) Object_prototype)
             (Object_keys extra))) \<and>
   (\<forall>k. map_of (fst (toDicom_tags env now G None)) k = None \<longrightarrow>
      reads_defined (fst (toDicom_tags env now G None)) Object_prototype k =
        (k \<in> set Object_prototype_names)) \<and>
   mergeTags (fst (toDicom_tags env now G None)) JNull [] = None \<and>
   toDicom_value env now G JNull = None \<and>
   (getMeta G ''Modality'' = JString ''MR'' \<and>
    (getList G = [] \<or>
     ''Modality'' \<notin> set (Object_keys (getDicomSRContentItem env
          (toDicom_srContent env (map (srScoord env) (getList G)))))) \<longrightarrow>
    js_get (fst (toDicom_tags env now G (Some [(''Modality'', JString ''CT'')]))) ''Modality'' =
      JString ''CT'' \<and>
    snd (toDicom_tags env now G (Some [(''Modality'', JString ''CT'')])) =
      [''Overwritting tag: Modality''])"
proof -
  let ?gen = "fst (toDicom_tags env now G None)"
  have merges: "mergeTags ?gen (JObject extra) [] = Some (mergeTags_object ?gen extra [])"
    and raises: "mergeTags ?gen JNull [] = None"
    by (simp_all add: mergeTags_def)
  have returns: "toDicom_value env now G (JObject extra) = Some (toDicom env now G (Some extra))"
    by (simp add: toDicom_value_def mergeTags_def toDicom_def toDicom_tags_def Let_def split_beta)
  have elements: "fst (toDicom env now G (Some extra)) =
      getElementsFromJSONTags env (fst (toDicom_tags env now G (Some extra)))"
    and logged: "snd (toDicom env now G (Some extra)) = snd (toDicom_tags env now G (Some extra))"
    by (simp_all add: toDicom_def split_beta)
  have keys: "\<forall>k \<in> set (Object_keys extra).
      (k \<noteq> ''__proto__'' \<or> map_of ?gen k \<noteq> None \<longrightarrow>
         map_of (fst (toDicom_tags env now G (Some extra))) k = Some (js_get extra k)) \<and>
      (\<forall>v. map_of ?gen k = Some v \<longrightarrow>
         count_list (snd (toDicom_tags env now G (Some extra))) (overwrite_message k) =
           (if v \<noteq> JUndefined then 1 else 0))"
    unfolding fst_toDicom_tags_Some snd_toDicom_tags_Some
    by (simp add: map_of_mergeTags_object_key count_mergeTags_object_own)
  have proto: "map_of ?gen ''__proto__'' = None \<longrightarrow>
      map_of (fst (toDicom_tags env now G (Some extra))) ''__proto__'' = None"
    unfolding fst_toDicom_tags_Some by (simp add: map_of_mergeTags_object_proto)
  have trace: "snd (toDicom_tags env now G (Some x)) =
      map overwrite_message (filter (reads_defined ?gen Object_prototype) (Object_keys x))"
    if "''__proto__'' \<notin> set (Object_keys x)" for x
    unfolding snd_toDicom_tags_Some using that by (simp add: mergeTags_object_plain)
  have inherited: "\<forall>k. map_of ?gen k = None \<longrightarrow>
      reads_defined ?gen Object_prototype k = (k \<in> set Object_prototype_names)"
    by (simp add: reads_defined_absent)
  have null: "toDicom_value env now G JNull = None"
    by (simp add: toDicom_value_def mergeTags_def)
  have modality: "js_get (fst (toDicom_tags env now G (Some [(''Modality'', JString ''CT'')])))
        ''Modality'' = JString ''CT'' \<and>
    snd (toDicom_tags env now G (Some [(''Modality'', JString ''CT'')])) =
      [''Overwritting tag: Modality'']"
    if "getMeta G ''Modality'' = JString ''MR''"
      and "getList G = [] \<or>
     ''Modality'' \<notin> set (Object_keys (getDicomSRContentItem env
          (toDicom_srContent env (map (srScoord env) (getList G)))))"
  proof -
    let ?extra = "[(''Modality'', JString ''CT'')]"
    have own: "map_of ?gen ''Modality'' = Some (JString ''MR'')"
      using that by (simp add: map_of_generated map_of_toDicom_fixed_Modality)
    have ct: "js_get ?extra ''Modality'' = JString ''CT''"
      by (simp add: js_get_def)
    have extra_keys: "Object_keys ?extra = [''Modality'']"
      by (simp add: Object_keys_def)
    have "map_of (fst (toDicom_tags env now G (Some ?extra))) ''Modality'' = Some (JString ''CT'')"
      unfolding fst_toDicom_tags_Some
      by (simp add: map_of_mergeTags_object_key extra_keys ct)
    then have 1: "js_get (fst (toDicom_tags env now G (Some ?extra))) ''Modality'' = JString ''CT''"
      by (rule js_get_map_of)
    have "snd (toDicom_tags env now G (Some ?extra)) =
        map overwrite_message (filter (reads_defined ?gen Object_prototype) (Object_keys ?extra))"
      by (rule trace) (simp add: extra_keys)
    then have 2: "snd (toDicom_tags env now G (Some ?extra)) = [''Overwritting tag: Modality'']"
      by (simp add: extra_keys reads_defined_own [OF own] overwrite_message_def)
    from 1 2 show ?thesis ..
  qed
  from merges returns elements logged keys proto trace [of extra] inherited raises null modality
  show ?thesis
    by (intro conjI impI) blast+
qed

text \<open>
  The sample group, whose Modality is \<^verbatim>\<open>MR\<close>, with the extra tags
  \<^verbatim>\<open>{Modality: 'CT', constructor: 'x'}\<close>: both keys are set and both are logged, the
  first as a generated tag and the second as a name of \<^verbatim>\<open>Object.prototype\<close>; and with
  the extra tags \<^verbatim>\<open>{Modality: 'CT'}\<close>.
\<close>

theorem toDicom_extraTags_witness:
  "set (Object_keys [(''Modality'', JString ''CT''), (''constructor'', JString ''x'')]) =
     {''Modality'', ''constructor''} \<and>
   map_of (fst (toDicom_tags (sample_modules sample_root) 0 sample_group None)) ''Modality'' =
     Some (JString ''MR'') \<and>
   map_of (fst (toDicom_tags (sample_modules sample_root) 0 sample_group None)) ''constructor'' =
     None \<and>
   map_of (fst (toDicom_tags (sample_modules sample_root) 0 sample_group
     (Some [(''Modality'', JString ''CT''), (''constructor'', JString ''x'')]))) ''Modality'' =
     Some (JString ''CT'') \<and>
   map_of (fst (toDicom_tags (sample_modules sample_root) 0 sample_group
     (Some [(''Modality'', JString ''CT''), (''constructor'', JString ''x'')]))) ''constructor'' =
     Some (JString ''x'') \<and>
   snd (toDicom_tags (sample_modules sample_root) 0 sample_group
     (Some [(''Modality'', JString ''CT''), (''constructor'', JString ''x'')])) =
     [''Overwritting tag: Modality'', ''Overwritting tag: constructor''] \<and>
   count_list (snd (toDicom_tags (sample_modules sample_root) 0 sample_group
     (Some [(''Modality'', JString ''CT''), (''constructor'', JString ''x'')])))
     (overwrite_message ''Modality'') = 1 \<and>
   map_of (fst (toDicom_tags (sample_modules sample_root) 0 sample_group
     (Some [(''Modality'', JString ''CT''), (''constructor'', JString ''x'')]))) ''__proto__'' =
     None \<and>
   getMeta sample_group ''Modality'' = JString ''MR'' \<and>
   js_get (fst (toDicom_tags (sample_modules sample_root) 0 sample_group
                 (Some [(''Modality'', JString ''CT'')]))) ''Modality'' = JString ''CT'' \<and>
   snd (toDicom_tags (sample_modules sample_root) 0 sample_group
          (Some [(''Modality'', JString ''CT'')])) = [''Overwritting tag: Modality'']"
proof -
  let ?env = "sample_modules sample_root"
  let ?extra = "[(''Modality'', JString ''CT''), (''constructor'', JString ''x'')]"
  let ?gen = "fst (toDicom_tags ?env 0 sample_group None)"
  have keys: "Object_keys ?extra = [''Modality'', ''constructor'']"
    by (simp add: Object_keys_def)
  have vals: "js_get ?extra ''Modality'' = JString ''CT''"
    "js_get ?extra ''constructor'' = JString ''x''"
    by (simp_all add: js_get_def)
  have meta: "getMeta sample_group ''Modality'' = JString ''MR''"
    by (simp add: getMeta_def sample_group_def)
  have writer: "getList sample_group = [] \<or>
     k \<notin> set (Object_keys (getDicomSRContentItem ?env
          (toDicom_srContent ?env (map (srScoord ?env) (getList sample_group)))))"
    if "k = ''Modality'' \<or> k = ''constructor''" for k
    using that by (auto simp: sample_writer_keys)
  have writer_keys: "getList sample_group = [] \<or>
     ''__proto__'' \<notin> set (Object_keys (getDicomSRContentItem ?env
          (toDicom_srContent ?env (map (srScoord ?env) (getList sample_group)))))"
    by (simp add: sample_writer_keys)
  have own: "map_of ?gen ''Modality'' = Some (JString ''MR'')"
    using writer [of "''Modality''"] meta
    by (simp add: map_of_generated map_of_toDicom_fixed_Modality)
  have absent: "map_of ?gen ''constructor'' = None"
    using writer [of "''constructor''"]
    by (simp add: map_of_generated toDicom_fixed_def)
  note facts = toDicom_extraTags [of ?env 0 sample_group ?extra]
  from facts have key: "k \<noteq> ''__proto__'' \<or> map_of ?gen k \<noteq> None \<longrightarrow>
      map_of (fst (toDicom_tags ?env 0 sample_group (Some ?extra))) k = Some (js_get ?extra k)"
    if "k \<in> set (Object_keys ?extra)" for k
    using that by blast
  have 1: "map_of (fst (toDicom_tags ?env 0 sample_group (Some ?extra))) ''Modality'' =
      Some (JString ''CT'')"
    using key [of "''Modality''"] by (simp add: keys vals)
  have 2: "map_of (fst (toDicom_tags ?env 0 sample_group (Some ?extra))) ''constructor'' =
      Some (JString ''x'')"
    using key [of "''constructor''"] by (simp add: keys vals)
  from facts have inherited: "reads_defined ?gen Object_prototype ''constructor'' =
      (''constructor'' \<in> set Object_prototype_names)"
    using absent by blast
  from facts have "snd (toDicom_tags ?env 0 sample_group (Some ?extra)) =
        map overwrite_message (filter (reads_defined ?gen Object_prototype) (Object_keys ?extra))"
    by (simp add: keys)
  then have 3: "snd (toDicom_tags ?env 0 sample_group (Some ?extra)) =
      [''Overwritting tag: Modality'', ''Overwritting tag: constructor'']"
    by (simp add: keys inherited reads_defined_own [OF own] Object_prototype_names_def
        overwrite_message_def)
  from toDicom_extraTags [of ?env 0 sample_group "[(''Modality'', JString ''CT'')]"]
    meta writer [of "''Modality''"]
  have 4: "js_get (fst (toDicom_tags ?env 0 sample_group
                 (Some [(''Modality'', JString ''CT'')]))) ''Modality'' = JString ''CT'' \<and>
    snd (toDicom_tags ?env 0 sample_group (Some [(''Modality'', JString ''CT'')])) =
      [''Overwritting tag: Modality'']"
    by blast
  have 0: "set (Object_keys ?extra) = {''Modality'', ''constructor''}"
    by (simp add: keys)
  from facts have logged: "count_list (snd (toDicom_tags ?env 0 sample_group (Some ?extra)))
        (overwrite_message k) = (if v \<noteq> JUndefined then 1 else 0)"
    if "k \<in> set (Object_keys ?extra)" and "map_of ?gen k = Some v" for k v
    using that by blast
  have 5: "count_list (snd (toDicom_tags ?env 0 sample_group (Some ?extra)))
        (overwrite_message ''Modality'') = 1"
    using logged [OF _ own] by (simp add: keys)
  have "map_of ?gen ''__proto__'' = None"
    using writer_keys by (simp add: map_of_generated toDicom_fixed_def)
  with facts have 6: "map_of (fst (toDicom_tags ?env 0 sample_group (Some ?extra))) ''__proto__'' =
      None"
    by blast
  from 0 own absent 1 2 3 5 6 meta 4 show ?thesis
    by (intro conjI) simp_all
qed

subsection \<open>C10\<close>

text \<open>
  Claim C10. The merge logs on the value, not on the key. In every step of the loop,
  a key that reads undefined from the first object is made an own property with the
  value of the second object and no message is logged; a key that reads a defined
  value is logged. For the merge as a whole: a key of the second tag object that the
  first object holds with the value undefined gets the value of the second and no
  message, whatever the other keys are; held with any other value, it gets one
  message. A key that the first object does not hold gets the value of the second,
  and a message exactly when it names a property of \<^verbatim>\<open>Object.prototype\<close>, whose value
  the test then reads (stated for a second object without the key \<^verbatim>\<open>__proto__\<close>,
  which would change the prototype). So for a group without Modality metadata (and a
  writer that gives no Modality), \<^verbatim>\<open>Modality\<close> is a generated tag with the value
  undefined, the Modality of the extra tags replaces it, and no message names
  Modality.
\<close>

theorem mergeTags_undefined_not_logged:
  "(\<not> reads_defined tags1 proto k \<longrightarrow>
      mergeTags_loop (k # ks) tags1 proto tags2 trace =
        mergeTags_loop ks (AList.update k (js_get tags2 k) tags1) proto tags2 trace) \<and>
   (reads_defined tags1 proto k \<longrightarrow>
      mergeTags_loop (k # ks) tags1 proto tags2 trace =
        mergeTags_loop ks (fst (assign tags1 proto k (js_get tags2 k)))
          (snd (assign tags1 proto k (js_get tags2 k))) tags2
          (trace @ [overwrite_message k])) \<and>
   mergeTags tags1 (JObject tags2) trace = Some (mergeTags_object tags1 tags2 trace) \<and>
   (k \<in> set (Object_keys tags2) \<and> map_of tags1 k = Some JUndefined \<longrightarrow>
      map_of (fst (mergeTags_object tags1 tags2 trace)) k = Some (js_get tags2 k) \<and>
      overwrite_message k \<notin> set (snd (snd (mergeTags_object tags1 tags2 [])))) \<and>
   (k \<in> set (Object_keys tags2) \<and> map_of tags1 k = Some v \<and> v \<noteq> JUndefined \<longrightarrow>
      map_of (fst (mergeTags_object tags1 tags2 trace)) k = Some (js_get tags2 k) \<and>
      count_list (snd (snd (mergeTags_object tags1 tags2 []))) (overwrite_message k) = 1) \<and>
   (k \<in> set (Object_keys tags2) \<and> map_of tags1 k = None \<and>
    ''__proto__'' \<notin> set (Object_keys tags2) \<longrightarrow>
      map_of (fst (mergeTags_object tags1 tags2 trace)) k = Some (js_get tags2 k) \<and>
      (overwrite_message k \<in> set (snd (snd (mergeTags_object tags1 tags2 []))) \<longleftrightarrow>
         k \<in> set Object_prototype_names)) \<and>
   (group_meta G ''Modality'' = None \<and> ''Modality'' \<in> set (Object_keys extra) \<and>
    (getList G = [] \<or>
     ''Modality'' \<notin> set (Object_keys (getDicomSRContentItem env
          (toDicom_srContent env (map (srScoord env) (getList G)))))) \<longrightarrow>
      map_of (fst (toDicom_tags env now G None)) ''Modality'' = Some JUndefined \<and>
      js_get (fst (toDicom_tags env now G (Some extra))) ''Modality'' = js_get extra ''Modality'' \<and>
      overwrite_message ''Modality'' \<notin> set (snd (toDicom_tags env now G (Some extra))))"
proof -
  have unread: "\<not> reads_defined tags1 proto k \<longrightarrow>
      mergeTags_loop (k # ks) tags1 proto tags2 trace =
        mergeTags_loop ks (AList.update k (js_get tags2 k) tags1) proto tags2 trace"
    unfolding mergeTags_loop_Cons by (simp add: assign_unread)
  have read: "reads_defined tags1 proto k \<longrightarrow>
      mergeTags_loop (k # ks) tags1 proto tags2 trace =
        mergeTags_loop ks (fst (assign tags1 proto k (js_get tags2 k)))
          (snd (assign tags1 proto k (js_get tags2 k))) tags2
          (trace @ [overwrite_message k])"
    unfolding mergeTags_loop_Cons by simp
  have 0: "mergeTags tags1 (JObject tags2) trace = Some (mergeTags_object tags1 tags2 trace)"
    by (simp add: mergeTags_def)
  have 1: "map_of (fst (mergeTags_object tags1 tags2 trace)) k = Some (js_get tags2 k) \<and>
      overwrite_message k \<notin> set (snd (snd (mergeTags_object tags1 tags2 [])))"
    if k: "k \<in> set (Object_keys tags2)" and u: "map_of tags1 k = Some JUndefined"
    for tags1 tags2 k trace
  proof -
    from u have "k \<noteq> ''__proto__'' \<or> map_of tags1 k \<noteq> None" by simp
    with k have "map_of (fst (mergeTags_object tags1 tags2 trace)) k = Some (js_get tags2 k)"
      by (rule map_of_mergeTags_object_key)
    moreover have "count_list (snd (snd (mergeTags_object tags1 tags2 []))) (overwrite_message k) = 0"
      using count_mergeTags_object_own [OF u, of tags2 "[]"] by simp
    then have "overwrite_message k \<notin> set (snd (snd (mergeTags_object tags1 tags2 [])))"
      by (rule count_list_0_iff [THEN iffD1])
    ultimately show ?thesis ..
  qed
  have 2: "map_of (fst (mergeTags_object tags1 tags2 trace)) k = Some (js_get tags2 k) \<and>
      count_list (snd (snd (mergeTags_object tags1 tags2 []))) (overwrite_message k) = 1"
    if k: "k \<in> set (Object_keys tags2)" and v: "map_of tags1 k = Some v" "v \<noteq> JUndefined"
  proof -
    from v have "k \<noteq> ''__proto__'' \<or> map_of tags1 k \<noteq> None" by simp
    with k have "map_of (fst (mergeTags_object tags1 tags2 trace)) k = Some (js_get tags2 k)"
      by (rule map_of_mergeTags_object_key)
    moreover have "count_list (snd (snd (mergeTags_object tags1 tags2 []))) (overwrite_message k) = 1"
      using count_mergeTags_object_own [OF v(1), of tags2 "[]"] k v(2) by simp
    ultimately show ?thesis ..
  qed
  have 3: "map_of (fst (mergeTags_object tags1 tags2 trace)) k = Some (js_get tags2 k) \<and>
      (overwrite_message k \<in> set (snd (snd (mergeTags_object tags1 tags2 []))) \<longleftrightarrow>
         k \<in> set Object_prototype_names)"
    if k: "k \<in> set (Object_keys tags2)" and a: "map_of tags1 k = None"
      and p: "''__proto__'' \<notin> set (Object_keys tags2)"
  proof -
    from k p have "k \<noteq> ''__proto__'' \<or> map_of tags1 k \<noteq> None" by auto
    with k have "map_of (fst (mergeTags_object tags1 tags2 trace)) k = Some (js_get tags2 k)"
      by (rule map_of_mergeTags_object_key)
    moreover have "overwrite_message k \<in> set (snd (snd (mergeTags_object tags1 tags2 []))) \<longleftrightarrow>
         k \<in> set Object_prototype_names"
      using k by (auto simp: mergeTags_object_plain [OF p] reads_defined_absent [OF a])
    ultimately show ?thesis ..
  qed
  have 4: "map_of (fst (toDicom_tags env now G None)) ''Modality'' = Some JUndefined \<and>
      js_get (fst (toDicom_tags env now G (Some extra))) ''Modality'' = js_get extra ''Modality'' \<and>
      overwrite_message ''Modality'' \<notin> set (snd (toDicom_tags env now G (Some extra)))"
    if m: "group_meta G ''Modality'' = None" and e: "''Modality'' \<in> set (Object_keys extra)"
      and w: "getList G = [] \<or>
     ''Modality'' \<notin> set (Object_keys (getDicomSRContentItem env
          (toDicom_srContent env (map (srScoord env) (getList G)))))"
  proof -
    let ?gen = "fst (toDicom_tags env now G None)"
    have u: "map_of ?gen ''Modality'' = Some JUndefined"
      using m w by (simp add: map_of_generated map_of_toDicom_fixed_Modality getMeta_def)
    from 1 [OF e u, of "[]"]
    have "js_get (fst (mergeTags_object ?gen extra [])) ''Modality'' = js_get extra ''Modality''"
      and "overwrite_message ''Modality'' \<notin> set (snd (snd (mergeTags_object ?gen extra [])))"
      by (simp_all add: js_get_map_of)
    with u show ?thesis
      unfolding fst_toDicom_tags_Some snd_toDicom_tags_Some by (intro conjI)
  qed
  from 1 [of k tags2 tags1 trace]
  have c1: "k \<in> set (Object_keys tags2) \<and> map_of tags1 k = Some JUndefined \<longrightarrow>
      map_of (fst (mergeTags_object tags1 tags2 trace)) k = Some (js_get tags2 k) \<and>
      overwrite_message k \<notin> set (snd (snd (mergeTags_object tags1 tags2 [])))"
    by (intro impI) (elim conjE)
  from 2
  have c2: "k \<in> set (Object_keys tags2) \<and> map_of tags1 k = Some v \<and> v \<noteq> JUndefined \<longrightarrow>
      map_of (fst (mergeTags_object tags1 tags2 trace)) k = Some (js_get tags2 k) \<and>
      count_list (snd (snd (mergeTags_object tags1 tags2 []))) (overwrite_message k) = 1"
    by (intro impI) (elim conjE)
  from 3
  have c3: "k \<in> set (Object_keys tags2) \<and> map_of tags1 k = None \<and>
    ''__proto__'' \<notin> set (Object_keys tags2) \<longrightarrow>
      map_of (fst (mergeTags_object tags1 tags2 trace)) k = Some (js_get tags2 k) \<and>
      (overwrite_message k \<in> set (snd (snd (mergeTags_object tags1 tags2 []))) \<longleftrightarrow>
         k \<in> set Object_prototype_names)"
    by (intro impI) (elim conjE)
  from 4
  have c4: "group_meta G ''Modality'' = None \<and> ''Modality'' \<in> set (Object_keys extra) \<and>
    (getList G = [] \<or>
     ''Modality'' \<notin> set (Object_keys (getDicomSRContentItem env
          (toDicom_srContent env (map (srScoord env) (getList G)))))) \<longrightarrow>
      map_of (fst (toDicom_tags env now G None)) ''Modality'' = Some JUndefined \<and>
      js_get (fst (toDicom_tags env now G (Some extra))) ''Modality'' = js_get extra ''Modality'' \<and>
      overwrite_message ''Modality'' \<notin> set (snd (toDicom_tags env now G (Some extra)))"
    by (intro impI) (elim conjE)
  from unread read 0 c1 c2 c3 c4 show ?thesis
    by (intro conjI)
qed

text \<open>
  A group with a StudyInstanceUID and no Modality, and extra tags for both and for
  \<^verbatim>\<open>toString\<close> and \<^verbatim>\<open>PatientName\<close>, neither of them generated: the StudyInstanceUID
  and \<^verbatim>\<open>toString\<close> are logged. And the merge of \<^verbatim>\<open>{y: '2', x: '3', z: '4', valueOf: '5'}\<close>
  into \<^verbatim>\<open>{x: '1', y: undefined}\<close>, as a whole and in its first step.
\<close>

theorem mergeTags_undefined_not_logged_witness:
  "group_meta (setMeta (AnnotationGroup []) ''StudyInstanceUID'' (JString ''1.2.3'')) ''Modality'' =
     None \<and>
   map_of (fst (toDicom_tags (sample_modules sample_root) 0
      (setMeta (AnnotationGroup []) ''StudyInstanceUID'' (JString ''1.2.3'')) None))
      ''Modality'' = Some JUndefined \<and>
   js_get (fst (toDicom_tags (sample_modules sample_root) 0
      (setMeta (AnnotationGroup []) ''StudyInstanceUID'' (JString ''1.2.3''))
      (Some [(''Modality'', JString ''CT''), (''StudyInstanceUID'', JString ''9.9''),
             (''toString'', JString ''t''), (''PatientName'', JString ''Doe'')])))
      ''Modality'' = JString ''CT'' \<and>
   overwrite_message ''Modality'' \<notin> set (snd (toDicom_tags (sample_modules sample_root) 0
      (setMeta (AnnotationGroup []) ''StudyInstanceUID'' (JString ''1.2.3''))
      (Some [(''Modality'', JString ''CT''), (''StudyInstanceUID'', JString ''9.9''),
             (''toString'', JString ''t''), (''PatientName'', JString ''Doe'')]))) \<and>
   snd (toDicom_tags (sample_modules sample_root) 0
      (setMeta (AnnotationGroup []) ''StudyInstanceUID'' (JString ''1.2.3''))
      (Some [(''Modality'', JString ''CT''), (''StudyInstanceUID'', JString ''9.9''),
             (''toString'', JString ''t''), (''PatientName'', JString ''Doe'')])) =
     [''Overwritting tag: StudyInstanceUID'', ''Overwritting tag: toString''] \<and>
   overwrite_message ''y'' \<notin> set (snd (snd (mergeTags_object
      [(''x'', JString ''1''), (''y'', JUndefined)]
      [(''y'', JString ''2''), (''x'', JString ''3''), (''z'', JString ''4''),
       (''valueOf'', JString ''5'')] []))) \<and>
   count_list (snd (snd (mergeTags_object
      [(''x'', JString ''1''), (''y'', JUndefined)]
      [(''y'', JString ''2''), (''x'', JString ''3''), (''z'', JString ''4''),
       (''valueOf'', JString ''5'')] []))) (overwrite_message ''x'') = 1 \<and>
   overwrite_message ''z'' \<notin> set (snd (snd (mergeTags_object
      [(''x'', JString ''1''), (''y'', JUndefined)]
      [(''y'', JString ''2''), (''x'', JString ''3''), (''z'', JString ''4''),
       (''valueOf'', JString ''5'')] []))) \<and>
   overwrite_message ''valueOf'' \<in> set (snd (snd (mergeTags_object
      [(''x'', JString ''1''), (''y'', JUndefined)]
      [(''y'', JString ''2''), (''x'', JString ''3''), (''z'', JString ''4''),
       (''valueOf'', JString ''5'')] []))) \<and>
   \<not> reads_defined [(''x'', JString ''1''), (''y'', JUndefined)] Object_prototype ''y'' \<and>
   mergeTags_loop [''y''] [(''x'', JString ''1''), (''y'', JUndefined)] Object_prototype
      [(''y'', JString ''2''), (''x'', JString ''3''), (''z'', JString ''4''),
       (''valueOf'', JString ''5'')] [] =
     ([(''x'', JString ''1''), (''y'', JString ''2'')], Object_prototype, []) \<and>
   reads_defined [(''x'', JString ''1''), (''y'', JUndefined)] Object_prototype ''x'' \<and>
   mergeTags_loop [''x''] [(''x'', JString ''1''), (''y'', JUndefined)] Object_prototype
      [(''y'', JString ''2''), (''x'', JString ''3''), (''z'', JString ''4''),
       (''valueOf'', JString ''5'')] [] =
     ([(''x'', JString ''3''), (''y'', JUndefined)], Object_prototype,
      [''Overwritting tag: x''])"
proof -
  let ?env = "sample_modules sample_root"
  let ?G = "setMeta (AnnotationGroup []) ''StudyInstanceUID'' (JString ''1.2.3'')"
  let ?extra = "[(''Modality'', JString ''CT''), (''StudyInstanceUID'', JString ''9.9''),
             (''toString'', JString ''t''), (''PatientName'', JString ''Doe'')]"
  let ?tags1 = "[(''x'', JString ''1''), (''y'', JUndefined)]"
  let ?tags2 = "[(''y'', JString ''2''), (''x'', JString ''3''), (''z'', JString ''4''),
       (''valueOf'', JString ''5'')]"
  have meta: "group_meta ?G ''Modality'' = None"
    by (simp add: setMeta_def AnnotationGroup_def)
  have key: "''Modality'' \<in> set (Object_keys ?extra)"
    by (simp add: Object_keys_def)
  have writer: "getList ?G = [] \<or>
     ''Modality'' \<notin> set (Object_keys (getDicomSRContentItem ?env
          (toDicom_srContent ?env (map (srScoord ?env) (getList ?G)))))"
    by (simp add: getList_def setMeta_def AnnotationGroup_def)
  from mergeTags_undefined_not_logged [where G = ?G and extra = ?extra and env = ?env and now = 0]
    meta key writer
  have "map_of (fst (toDicom_tags ?env 0 ?G None)) ''Modality'' = Some JUndefined \<and>
      js_get (fst (toDicom_tags ?env 0 ?G (Some ?extra))) ''Modality'' = js_get ?extra ''Modality'' \<and>
      overwrite_message ''Modality'' \<notin> set (snd (toDicom_tags ?env 0 ?G (Some ?extra)))"
    by blast
  moreover have "js_get ?extra ''Modality'' = JString ''CT''"
    by (simp add: js_get_def)
  moreover have "snd (toDicom_tags ?env 0 ?G (Some ?extra)) =
      [''Overwritting tag: StudyInstanceUID'', ''Overwritting tag: toString'']"
    by (simp add: toDicom_tags_def toDicom_fixed_def mergeTags_object_def Object_keys_def
      js_get_def reads_defined_def assign_def Object_prototype_names_def
      getList_def getMeta_def AnnotationGroup_def setMeta_def overwrite_message_def)
  moreover have keys2: "Object_keys ?tags2 = [''y'', ''x'', ''z'', ''valueOf'']"
    by (simp add: Object_keys_def)
  have "overwrite_message ''y'' \<notin> set (snd (snd (mergeTags_object ?tags1 ?tags2 [])))"
    using mergeTags_undefined_not_logged [where ?tags1.0 = ?tags1 and ?tags2.0 = ?tags2
        and trace = "[]" and k = "''y''"]
    by (simp add: keys2)
  moreover have "count_list (snd (snd (mergeTags_object ?tags1 ?tags2 [])))
      (overwrite_message ''x'') = 1"
    using mergeTags_undefined_not_logged [where ?tags1.0 = ?tags1 and ?tags2.0 = ?tags2
        and trace = "[]" and k = "''x''" and v = "JString ''1''"]
    by (simp add: keys2)
  moreover have "overwrite_message ''z'' \<notin> set (snd (snd (mergeTags_object ?tags1 ?tags2 [])))"
    using mergeTags_undefined_not_logged [where ?tags1.0 = ?tags1 and ?tags2.0 = ?tags2
        and trace = "[]" and k = "''z''"]
    by (simp add: keys2 Object_prototype_names_def)
  moreover have "overwrite_message ''valueOf'' \<in> set (snd (snd (mergeTags_object ?tags1 ?tags2 [])))"
    using mergeTags_undefined_not_logged [where ?tags1.0 = ?tags1 and ?tags2.0 = ?tags2
        and trace = "[]" and k = "''valueOf''"]
    by (simp add: keys2 Object_prototype_names_def)
  moreover have unread: "\<not> reads_defined ?tags1 Object_prototype ''y''"
    and read: "reads_defined ?tags1 Object_prototype ''x''"
    by (simp_all add: reads_defined_def)
  have "mergeTags_loop [''y''] ?tags1 Object_prototype ?tags2 [] =
      ([(''x'', JString ''1''), (''y'', JString ''2'')], Object_prototype, [])"
    using mergeTags_undefined_not_logged [where ?tags1.0 = ?tags1 and ?tags2.0 = ?tags2
        and trace = "[]" and k = "''y''" and proto = Object_prototype and ks = "[]"] unread
    by (simp add: js_get_def)
  moreover have "mergeTags_loop [''x''] ?tags1 Object_prototype ?tags2 [] =
      ([(''x'', JString ''3''), (''y'', JUndefined)], Object_prototype, [''Overwritting tag: x''])"
    using mergeTags_undefined_not_logged [where ?tags1.0 = ?tags1 and ?tags2.0 = ?tags2
        and trace = "[]" and k = "''x''" and proto = Object_prototype and ks = "[]"] read
    by (simp add: js_get_def assign_def overwrite_message_def)
  ultimately show ?thesis
    using meta unread read by (intro conjI) simp_all
qed

end
